theory Spec2Isabelle
  imports Complex_Main "HOL-Library.Multiset" "HOL-Library.List_Lexorder" "HOL-Library.Char_ord"
begin

section \<open>The storage service of PR-CONNEXION: cache and synchronisation layer\<close>

text \<open>
  A shallow embedding of \<^verbatim>\<open>src/services/storageService.ts\<close>. The module-level
  \<^verbatim>\<open>CACHE\<close> object, the browser's \<^verbatim>\<open>localStorage\<close> entry \<^verbatim>\<open>pr_local_comments\<close> and
  the clock read by \<^verbatim>\<open>Date.now()\<close> are the fields of one explicit state, the
  \<open>world\<close>. Every Supabase call is recorded in a log, so that "no network call" is the
  statement that the log did not change. A Supabase reply is an input of the operation
  that awaits it. An operation returns the value or the exception it ends with, together
  with the world it leaves behind: an exception does not undo earlier assignments.
\<close>

subsection \<open>Platform functions\<close>

text \<open>
  The formatting and comparison functions of the JavaScript runtime, most of which depend
  on the locale of the browser, are parameters of the model:
  \<^verbatim>\<open>encodeURIComponent(s)\<close>, \<^verbatim>\<open>new Date(s).toLocaleDateString()\<close>,
  \<^verbatim>\<open>new Date(s).toLocaleDateString('fr-FR', {...})\<close>,
  \<^verbatim>\<open>new Date(s).toLocaleTimeString([], {hour: '2-digit', minute: '2-digit'})\<close>,
  \<^verbatim>\<open>new Date().toISOString()\<close> at a given clock value, and \<^verbatim>\<open>a.localeCompare(b)\<close>.
\<close>

record platform =
  encodeURIComponent :: "string \<Rightarrow> string"
  toLocaleDateString :: "string \<Rightarrow> string"
  toLocaleDateStringFr :: "string \<Rightarrow> string"
  toLocaleTimeString :: "string \<Rightarrow> string"
  toISOString :: "int \<Rightarrow> string"
  localeCompare :: "string \<Rightarrow> string \<Rightarrow> int"

text \<open>The decimal numeral that a template literal prints for an integer.\<close>

definition digit_char :: "nat \<Rightarrow> char" where
  "digit_char d = ''0123456789'' ! d"

fun show_nat :: "nat \<Rightarrow> string" where
  "show_nat n = (if n < 10 then [digit_char n] else show_nat (n div 10) @ [digit_char (n mod 10)])"

declare show_nat.simps [simp del]

definition show_int :: "int \<Rightarrow> string" where
  "show_int i = (if i < 0 then CHR ''-'' # show_nat (nat (- i)) else show_nat (nat i))"

text \<open>\<^verbatim>\<open>xs.slice(start)\<close> for an integer \<open>start\<close>: a negative start counts from the end,
  and both ends are clamped. \<^verbatim>\<open>slice(-0)\<close> is \<^verbatim>\<open>slice(0)\<close>, the whole array.\<close>

definition js_slice_from :: "int \<Rightarrow> 'a list \<Rightarrow> 'a list" where
  "js_slice_from start xs =
     (let len = int (length xs);
          k = (if start < 0 then max (len + start) 0 else min start len)
      in drop (nat k) xs)"

text \<open>JavaScript truthiness of a string that may be \<^verbatim>\<open>undefined\<close> or \<^verbatim>\<open>null\<close>.\<close>

definition truthy :: "string option \<Rightarrow> bool" where
  "truthy s = (case s of None \<Rightarrow> False | Some t \<Rightarrow> t \<noteq> [])"

text \<open>\<^verbatim>\<open>s || d\<close> for such a string.\<close>

definition or_else :: "string option \<Rightarrow> string \<Rightarrow> string" where
  "or_else s d = (case s of None \<Rightarrow> d | Some t \<Rightarrow> if t = [] then d else t)"

subsection \<open>Domain records (the fields the mappers build)\<close>

record location =
  lat :: real
  lng :: real
  address :: string
  city :: string

record member =
  mb_id :: string
  mb_name :: string
  mb_email :: "string option"
  mb_businessName :: string
  mb_sector :: string
  mb_location :: location
  mb_avatar :: string
  mb_joinedDate :: string
  mb_status :: string
  mb_trainingProgress :: real
  mb_badges :: "string list"
  mb_role :: string
  mb_completedTrainings :: "string list"

record post =
  po_id :: string
  po_authorId :: "string option"
  po_content :: string
  po_type :: string
  po_likes :: int
  po_comments :: "int option"
  po_timestamp :: string
  po_image :: "string option"
  po_likedBy :: "string list"
  po_commentsList :: "string list"
  po_authorName :: string
  po_authorAvatar :: string

record training =
  tr_id :: string
  tr_title :: string
  tr_description :: string
  tr_type :: string
  tr_url :: string
  tr_duration :: "string option"
  tr_dateAdded :: string
  tr_authorName :: "string option"

record message =
  dm_id :: string
  dm_authorId :: "string option"
  dm_authorName :: string
  dm_authorAvatar :: string
  dm_content :: string
  dm_timestamp :: string
  dm_displayTime :: string

record comment =
  co_id :: string
  co_authorName :: string
  co_content :: string
  co_timestamp :: string

subsection \<open>Wire records (rows of the Supabase tables)\<close>

record wire_profile =
  wpr_id :: string
  wpr_name :: "string option"
  wpr_email :: "string option"
  wpr_business_name :: "string option"
  wpr_sector :: "string option"
  wpr_latitude :: "real option"
  wpr_longitude :: "real option"
  wpr_address :: "string option"
  wpr_city :: "string option"
  wpr_avatar_url :: "string option"
  wpr_joined_date :: string
  wpr_status :: "string option"
  wpr_training_progress :: "real option"
  wpr_badges :: "string list option"
  wpr_role :: "string option"
  wpr_completed_trainings :: "string list option"

text \<open>The joined \<^verbatim>\<open>profiles(name, avatar_url)\<close> of a post, a message or a comment.\<close>

record wire_author =
  wa_name :: "string option"
  wa_avatar_url :: "string option"

record wire_post =
  wp_id :: string
  wp_author_id :: "string option"
  wp_content :: string
  wp_type :: string
  wp_likes_count :: "int option"
  wp_comments :: "int option list option"
  wp_created_at :: string
  wp_image_url :: "string option"
  wp_liked_by :: "string list option"
  wp_profiles :: "wire_author option"

record wire_training =
  wt_id :: string
  wt_title :: string
  wt_description :: string
  wt_type :: string
  wt_url :: string
  wt_duration :: "string option"
  wt_created_at :: string
  wt_author_name :: "string option"

record wire_message =
  wm_id :: string
  wm_author_id :: "string option"
  wm_content :: string
  wm_created_at :: string
  wm_profiles :: "wire_author option"

record wire_comment =
  wc_id :: string
  wc_content :: string
  wc_created_at :: string
  wc_profiles :: "wire_author option"

text \<open>An entry of the array stored under \<^verbatim>\<open>pr_local_comments\<close>.\<close>

record local_comment =
  lc_id :: string
  lc_post_id :: string
  lc_author_id :: "string option"
  lc_content :: string
  lc_created_at :: string
  lc_is_local :: bool

subsection \<open>Mappers\<close>

text \<open>\<^verbatim>\<open>p.profiles?.name\<close> and \<^verbatim>\<open>p.profiles?.avatar_url\<close>.\<close>

definition profiles_name :: "wire_author option \<Rightarrow> string option" where
  "profiles_name a = (case a of None \<Rightarrow> None | Some x \<Rightarrow> wa_name x)"

definition profiles_avatar_url :: "wire_author option \<Rightarrow> string option" where
  "profiles_avatar_url a = (case a of None \<Rightarrow> None | Some x \<Rightarrow> wa_avatar_url x)"

definition ui_avatar :: "platform \<Rightarrow> string \<Rightarrow> string" where
  "ui_avatar pf name =
     ''https://ui-avatars.com/api/?name='' @ encodeURIComponent pf name @ ''&background=random''"

definition mapProfileToMember :: "platform \<Rightarrow> wire_profile \<Rightarrow> member" where
  "mapProfileToMember pf p =
     \<lparr> mb_id = wpr_id p,
       mb_name = or_else (wpr_name p) ''Utilisateur'',
       mb_email = wpr_email p,
       mb_businessName = or_else (wpr_business_name p) '''',
       mb_sector = or_else (wpr_sector p) '''',
       mb_location =
         \<lparr> lat = (case wpr_latitude p of None \<Rightarrow> 0 | Some x \<Rightarrow> x),
           lng = (case wpr_longitude p of None \<Rightarrow> 0 | Some x \<Rightarrow> x),
           address = or_else (wpr_address p) '''',
           city = or_else (wpr_city p) '''' \<rparr>,
       mb_avatar = or_else (wpr_avatar_url p) (ui_avatar pf (or_else (wpr_name p) ''User'')),
       mb_joinedDate = toLocaleDateString pf (wpr_joined_date p),
       mb_status = or_else (wpr_status p) ''En Formation'',
       mb_trainingProgress = (case wpr_training_progress p of None \<Rightarrow> 0 | Some x \<Rightarrow> x),
       mb_badges = (case wpr_badges p of None \<Rightarrow> [] | Some bs \<Rightarrow> bs),
       mb_role = or_else (wpr_role p) ''MEMBER'',
       mb_completedTrainings = (case wpr_completed_trainings p of None \<Rightarrow> [] | Some cs \<Rightarrow> cs) \<rparr>"

definition mapPostToApp :: "platform \<Rightarrow> wire_post \<Rightarrow> post" where
  "mapPostToApp pf p =
     \<lparr> po_id = wp_id p,
       po_authorId = wp_author_id p,
       po_content = wp_content p,
       po_type = wp_type p,
       po_likes = (case wp_likes_count p of None \<Rightarrow> 0 | Some n \<Rightarrow> n),
       po_comments = (case wp_comments p of None \<Rightarrow> Some 0 | Some [] \<Rightarrow> None | Some (c # cs) \<Rightarrow> c),
       po_timestamp = toLocaleDateStringFr pf (wp_created_at p),
       po_image = wp_image_url p,
       po_likedBy = (case wp_liked_by p of None \<Rightarrow> [] | Some ls \<Rightarrow> ls),
       po_commentsList = [],
       po_authorName = or_else (profiles_name (wp_profiles p)) ''Membre Cluster'',
       po_authorAvatar =
         or_else (profiles_avatar_url (wp_profiles p))
           (ui_avatar pf (or_else (profiles_name (wp_profiles p)) ''User'')) \<rparr>"

text \<open>The inline mappers of \<^verbatim>\<open>getTrainings\<close>, \<^verbatim>\<open>getDiscussionMessages\<close> and
  \<^verbatim>\<open>getCommentsForPost\<close>.\<close>

definition mapTraining :: "platform \<Rightarrow> wire_training \<Rightarrow> training" where
  "mapTraining pf t =
     \<lparr> tr_id = wt_id t, tr_title = wt_title t, tr_description = wt_description t,
       tr_type = wt_type t, tr_url = wt_url t, tr_duration = wt_duration t,
       tr_dateAdded = toLocaleDateString pf (wt_created_at t),
       tr_authorName = wt_author_name t \<rparr>"

definition mapMessage :: "platform \<Rightarrow> wire_message \<Rightarrow> message" where
  "mapMessage pf m =
     \<lparr> dm_id = wm_id m,
       dm_authorId = wm_author_id m,
       dm_authorName = or_else (profiles_name (wm_profiles m)) ''Inconnu'',
       dm_authorAvatar =
         or_else (profiles_avatar_url (wm_profiles m))
           (ui_avatar pf (or_else (profiles_name (wm_profiles m)) ''User'')),
       dm_content = wm_content m,
       dm_timestamp = wm_created_at m,
       dm_displayTime = toLocaleTimeString pf (wm_created_at m) \<rparr>"

definition mapDbComment :: "platform \<Rightarrow> wire_comment \<Rightarrow> comment" where
  "mapDbComment pf c =
     \<lparr> co_id = wc_id c,
       co_authorName = or_else (profiles_name (wc_profiles c)) ''Visiteur'',
       co_content = wc_content c,
       co_timestamp = toLocaleTimeString pf (wc_created_at c) \<rparr>"

definition mapLocalComment :: "platform \<Rightarrow> local_comment \<Rightarrow> comment" where
  "mapLocalComment pf c =
     \<lparr> co_id = lc_id c,
       co_authorName = ''Moi (Local)'',
       co_content = lc_content c,
       co_timestamp = toLocaleTimeString pf (lc_created_at c) \<rparr>"

subsection \<open>The cache system\<close>

record 'a cache_entry =
  data :: "'a list option"
  timestamp :: int

datatype request = Select string | Insert string | Update string | Delete string | Auth string

record world =
  members :: "member cache_entry"
  posts :: "post cache_entry"
  trainings :: "training cache_entry"
  messages :: "message cache_entry"
  pr_local_comments :: "local_comment list option"
  clock :: int
  gateway_log :: "request list"

datatype kind = Members | Posts | Trainings | Messages

definition CACHE_DURATION :: int where
  "CACHE_DURATION = 5 * 60 * 1000"

definition empty_entry :: "'a cache_entry" where
  "empty_entry = \<lparr> data = None, timestamp = 0 \<rparr>"

text \<open>The state of a freshly loaded module, at clock value \<open>t\<close>.\<close>

definition initial_world :: "int \<Rightarrow> world" where
  "initial_world t =
     \<lparr> members = empty_entry, posts = empty_entry, trainings = empty_entry,
       messages = empty_entry, pr_local_comments = None, clock = t, gateway_log = [] \<rparr>"

definition has_data :: "kind \<Rightarrow> world \<Rightarrow> bool" where
  "has_data k w =
     (case k of
        Members \<Rightarrow> data (members w) \<noteq> None
      | Posts \<Rightarrow> data (posts w) \<noteq> None
      | Trainings \<Rightarrow> data (trainings w) \<noteq> None
      | Messages \<Rightarrow> data (messages w) \<noteq> None)"

definition fetchedAt :: "kind \<Rightarrow> world \<Rightarrow> int" where
  "fetchedAt k w =
     (case k of
        Members \<Rightarrow> timestamp (members w)
      | Posts \<Rightarrow> timestamp (posts w)
      | Trainings \<Rightarrow> timestamp (trainings w)
      | Messages \<Rightarrow> timestamp (messages w))"

text \<open>An array is truthy even when empty, so \<^verbatim>\<open>CACHE[key].data && ...\<close> tests for
  \<^verbatim>\<open>null\<close> only.\<close>

definition isCacheValid :: "kind \<Rightarrow> world \<Rightarrow> bool" where
  "isCacheValid k w = (has_data k w \<and> clock w - fetchedAt k w < CACHE_DURATION)"

definition invalidateCache :: "kind \<Rightarrow> world \<Rightarrow> world" where
  "invalidateCache k w =
     (case k of
        Members \<Rightarrow> w\<lparr>members := (members w)\<lparr>timestamp := 0, data := None\<rparr>\<rparr>
      | Posts \<Rightarrow> w\<lparr>posts := (posts w)\<lparr>timestamp := 0, data := None\<rparr>\<rparr>
      | Trainings \<Rightarrow> w\<lparr>trainings := (trainings w)\<lparr>timestamp := 0, data := None\<rparr>\<rparr>
      | Messages \<Rightarrow> w\<lparr>messages := (messages w)\<lparr>timestamp := 0, data := None\<rparr>\<rparr>)"

subsection \<open>Supabase replies and exceptions\<close>

text \<open>
  A reply of the Supabase client is the pair \<^verbatim>\<open>{ data, error }\<close>; \<open>latency\<close> is the time
  the \<^verbatim>\<open>await\<close> took, in milliseconds. \<^verbatim>\<open>error\<close> is an object with a message, or
  \<^verbatim>\<open>null\<close>.
\<close>

record 'r reply =
  rdata :: "'r option"
  rerror :: "string option"
  latency :: nat

datatype exn = GatewayError string | TypeError | Error string

type_synonym 'a outcome = "(exn + 'a) \<times> world"

text \<open>A reply of \<^verbatim>\<open>.single()\<close> and of the authentication calls: the row, or an error
  message.\<close>

record 'r single_reply =
  srow :: "string + 'r"
  slatency :: nat

definition await_gateway :: "request \<Rightarrow> nat \<Rightarrow> world \<Rightarrow> world" where
  "await_gateway rq ms w =
     w\<lparr>clock := clock w + int ms, gateway_log := gateway_log w @ [rq]\<rparr>"

text \<open>\<^verbatim>\<open>if (error) throw error; ... data.map(f)\<close>: a reply with an error throws it, and
  \<^verbatim>\<open>null.map\<close> is a \<^verbatim>\<open>TypeError\<close>.\<close>

definition rows_or_throw :: "'r list reply \<Rightarrow> exn + 'r list" where
  "rows_or_throw r =
     (case rerror r of
        Some msg \<Rightarrow> Inl (GatewayError msg)
      | None \<Rightarrow> (case rdata r of None \<Rightarrow> Inl TypeError | Some rows \<Rightarrow> Inr rows))"

text \<open>The static fallback datasets of \<^verbatim>\<open>../constants\<close>, which is not part of the sources
  at hand: they are parameters.\<close>

record constants =
  MOCK_MEMBERS :: "member list"
  MOCK_POSTS :: "post list"
  MOCK_TRAININGS :: "training list"

subsection \<open>Read operations\<close>

definition getAllMembers :: "platform \<Rightarrow> constants \<Rightarrow> wire_profile list reply \<Rightarrow> world \<Rightarrow> member list outcome" where
  "getAllMembers pf K r w =
     (if isCacheValid Members w \<and> data (members w) \<noteq> None then (Inr (the (data (members w))), w)
      else
        let w1 = await_gateway (Select ''profiles'') (latency r) w in
        (case rows_or_throw r of
           Inr rows \<Rightarrow>
             let ms = map (mapProfileToMember pf) rows
             in (Inr ms, w1\<lparr>members := \<lparr> data = Some ms, timestamp = clock w1 \<rparr>\<rparr>)
         | Inl e \<Rightarrow>
             (case data (members w1) of
                Some cached \<Rightarrow> (Inr cached, w1)
              | None \<Rightarrow> (Inr (MOCK_MEMBERS K), w1))))"

definition getPosts :: "platform \<Rightarrow> constants \<Rightarrow> bool \<Rightarrow> wire_post list reply \<Rightarrow> world \<Rightarrow> post list outcome" where
  "getPosts pf K forceRefresh r w =
     (if \<not> forceRefresh \<and> isCacheValid Posts w \<and> data (posts w) \<noteq> None
      then (Inr (the (data (posts w))), w)
      else
        let w1 = await_gateway (Select ''posts'') (latency r) w in
        (case rows_or_throw r of
           Inr rows \<Rightarrow>
             let ps = map (mapPostToApp pf) rows
             in (Inr ps, w1\<lparr>posts := \<lparr> data = Some ps, timestamp = clock w1 \<rparr>\<rparr>)
         | Inl e \<Rightarrow>
             (case data (posts w1) of
                Some cached \<Rightarrow> (Inr cached, w1)
              | None \<Rightarrow> (Inr (MOCK_POSTS K), w1))))"

definition getTrainings :: "platform \<Rightarrow> constants \<Rightarrow> wire_training list reply \<Rightarrow> world \<Rightarrow> training list outcome" where
  "getTrainings pf K r w =
     (if isCacheValid Trainings w \<and> data (trainings w) \<noteq> None
      then (Inr (the (data (trainings w))), w)
      else
        let w1 = await_gateway (Select ''trainings'') (latency r) w in
        (case rows_or_throw r of
           Inr rows \<Rightarrow>
             let ts = map (mapTraining pf) rows
             in (Inr ts, w1\<lparr>trainings := \<lparr> data = Some ts, timestamp = clock w1 \<rparr>\<rparr>)
         | Inl e \<Rightarrow>
             (case data (trainings w1) of
                Some cached \<Rightarrow> (Inr cached, w1)
              | None \<Rightarrow> (Inr (MOCK_TRAININGS K), w1))))"

subsection \<open>Discussion messages\<close>

definition getCachedMessages :: "world \<Rightarrow> message list" where
  "getCachedMessages w = (case data (messages w) of None \<Rightarrow> [] | Some ms \<Rightarrow> ms)"

definition syncMessageCache :: "message list \<Rightarrow> world \<Rightarrow> world" where
  "syncMessageCache ms w = w\<lparr>messages := \<lparr> data = Some ms, timestamp = clock w \<rparr>\<rparr>"

text \<open>The pagination merge of \<^verbatim>\<open>getDiscussionMessages\<close>: \<^verbatim>\<open>existingIds\<close>, \<^verbatim>\<open>uniqueNew\<close>
  and the new cached array.\<close>

definition uniqueNew :: "message list \<Rightarrow> message list \<Rightarrow> message list" where
  "uniqueNew cached newMessages =
     filter (\<lambda>m. dm_id m \<notin> set (map dm_id cached)) newMessages"

definition getDiscussionMessages ::
  "platform \<Rightarrow> int \<Rightarrow> string option \<Rightarrow> wire_message list reply \<Rightarrow> world \<Rightarrow> message list outcome" where
  "getDiscussionMessages pf limit beforeTimestamp r w =
     (if \<not> truthy beforeTimestamp \<and> isCacheValid Messages w \<and> data (messages w) \<noteq> None
         \<and> int (length (the (data (messages w)))) \<ge> limit
      then (Inr (js_slice_from (- limit) (the (data (messages w)))), w)
      else
        let w1 = await_gateway (Select ''messages'') (latency r) w in
        (case rerror r of
           None \<Rightarrow>
             (case rdata r of
                None \<Rightarrow> (Inr [], w1)
              | Some rows \<Rightarrow>
                  let newMessages = map (mapMessage pf) (rev rows) in
                  if \<not> truthy beforeTimestamp
                  then (Inr newMessages,
                        w1\<lparr>messages := \<lparr> data = Some newMessages, timestamp = clock w1 \<rparr>\<rparr>)
                  else
                    (case data (messages w1) of
                       Some cached \<Rightarrow>
                         (Inr newMessages,
                          w1\<lparr>messages := (messages w1)\<lparr>data := Some (uniqueNew cached newMessages @ cached)\<rparr>\<rparr>)
                     | None \<Rightarrow> (Inr newMessages, w1)))
         | Some msg \<Rightarrow>
             (case data (messages w1) of
                Some cached \<Rightarrow>
                  if \<not> truthy beforeTimestamp then (Inr (js_slice_from (- limit) cached), w1)
                  else (Inr [], w1)
              | None \<Rightarrow> (Inr [], w1))))"

definition addDiscussionMessage :: "platform \<Rightarrow> wire_message single_reply \<Rightarrow> world \<Rightarrow> message outcome" where
  "addDiscussionMessage pf r w =
     (let w1 = await_gateway (Insert ''messages'') (slatency r) w in
      case srow r of
        Inl msg \<Rightarrow> (Inl (Error msg), w1)
      | Inr row \<Rightarrow>
          let formatted = mapMessage pf row in
          (case data (messages w1) of
             Some cached \<Rightarrow> (Inr formatted, w1\<lparr>messages := (messages w1)\<lparr>data := Some (cached @ [formatted])\<rparr>\<rparr>)
           | None \<Rightarrow> (Inr formatted, w1\<lparr>messages := \<lparr> data = Some [formatted], timestamp = clock w1 \<rparr>\<rparr>)))"

definition deleteDiscussionMessage :: "string \<Rightarrow> unit reply \<Rightarrow> world \<Rightarrow> unit outcome" where
  "deleteDiscussionMessage messageId r w =
     (let w1 = await_gateway (Delete ''messages'') (latency r) w in
      case rerror r of
        Some msg \<Rightarrow> (Inl (Error msg), w1)
      | None \<Rightarrow>
          (case data (messages w1) of
             Some cached \<Rightarrow>
               (Inr (), w1\<lparr>messages := (messages w1)\<lparr>data := Some (filter (\<lambda>m. dm_id m \<noteq> messageId) cached)\<rparr>\<rparr>)
           | None \<Rightarrow> (Inr (), w1)))"

subsection \<open>Posts and comments: write operations\<close>

definition addPost :: "post \<Rightarrow> unit reply \<Rightarrow> world \<Rightarrow> unit outcome" where
  "addPost p r w =
     (let w1 = await_gateway (Insert ''posts'') (latency r) w in
      case rerror r of
        Some msg \<Rightarrow> (Inl (Error (''Impossible de publier le post. '' @ msg)), w1)
      | None \<Rightarrow> (Inr (), invalidateCache Posts w1))"

text \<open>\<^verbatim>\<open>updatePost\<close> in its two parts: the assignments before the \<^verbatim>\<open>await\<close>, and the
  \<^verbatim>\<open>try\<close>/\<^verbatim>\<open>catch\<close> around the Supabase update, whose handler only logs.\<close>

definition updatePost_patch :: "post \<Rightarrow> world \<Rightarrow> world" where
  "updatePost_patch p w =
     (case data (posts w) of
        Some cached \<Rightarrow>
          w\<lparr>posts := (posts w)\<lparr>data := Some (map (\<lambda>q. if po_id q = po_id p then p else q) cached)\<rparr>\<rparr>
      | None \<Rightarrow> w)"

definition updatePost_send :: "unit reply \<Rightarrow> world \<Rightarrow> unit outcome" where
  "updatePost_send r w =
     (let w1 = await_gateway (Update ''posts'') (latency r) w in
      case (case rerror r of Some msg \<Rightarrow> Inl (GatewayError msg) | None \<Rightarrow> Inr ()) of
        Inr u \<Rightarrow> (Inr (), w1)
      | Inl e \<Rightarrow> (Inr (), w1))"

definition updatePost :: "post \<Rightarrow> unit reply \<Rightarrow> world \<Rightarrow> unit outcome" where
  "updatePost p r w = updatePost_send r (updatePost_patch p w)"

text \<open>\<^verbatim>\<open>JSON.parse(localStorage.getItem('pr_local_comments') || '[]')\<close>: the stored array,
  empty when the key is absent. The store holds what \<^verbatim>\<open>addComment\<close> wrote, so reading
  it back gives the records that were written.\<close>

definition stored_local_comments :: "world \<Rightarrow> local_comment list" where
  "stored_local_comments w = (case pr_local_comments w of None \<Rightarrow> [] | Some cs \<Rightarrow> cs)"

definition newLocalComment :: "platform \<Rightarrow> string \<Rightarrow> string \<Rightarrow> string option \<Rightarrow> int \<Rightarrow> local_comment" where
  "newLocalComment pf postId content authorId now =
     \<lparr> lc_id = ''local-'' @ show_int now,
       lc_post_id = postId,
       lc_author_id = authorId,
       lc_content = content,
       lc_created_at = toISOString pf now,
       lc_is_local = True \<rparr>"

definition addComment :: "platform \<Rightarrow> string \<Rightarrow> string \<Rightarrow> string option \<Rightarrow> unit reply \<Rightarrow> world \<Rightarrow> unit outcome" where
  "addComment pf postId content authorId r w =
     (let w1 = await_gateway (Insert ''comments'') (latency r) w in
      case (case rerror r of Some msg \<Rightarrow> Inl (GatewayError msg) | None \<Rightarrow> Inr ()) of
        Inr u \<Rightarrow> (Inr (), invalidateCache Posts w1)
      | Inl e \<Rightarrow>
          let localComments = stored_local_comments w1;
              c = newLocalComment pf postId content authorId (clock w1);
              w2 = w1\<lparr>pr_local_comments := Some (localComments @ [c])\<rparr>
          in (Inr (), invalidateCache Posts w2))"

text \<open>\<^verbatim>\<open>Array.prototype.sort\<close> with a comparator: a stable sort. An element goes before
  the first later element that it does not compare greater than.\<close>

fun insert_by :: "('a \<Rightarrow> 'a \<Rightarrow> int) \<Rightarrow> 'a \<Rightarrow> 'a list \<Rightarrow> 'a list" where
  "insert_by cmp x [] = [x]"
| "insert_by cmp x (y # ys) = (if cmp x y \<le> 0 then x # y # ys else y # insert_by cmp x ys)"

definition js_sort :: "('a \<Rightarrow> 'a \<Rightarrow> int) \<Rightarrow> 'a list \<Rightarrow> 'a list" where
  "js_sort cmp xs = foldr (insert_by cmp) xs []"

definition by_timestamp :: "platform \<Rightarrow> comment \<Rightarrow> comment \<Rightarrow> int" where
  "by_timestamp pf a b = localeCompare pf (co_timestamp a) (co_timestamp b)"

definition localCommentsFor :: "platform \<Rightarrow> string \<Rightarrow> world \<Rightarrow> comment list" where
  "localCommentsFor pf postId w =
     map (mapLocalComment pf) (filter (\<lambda>c. lc_post_id c = postId) (stored_local_comments w))"

definition getCommentsForPost :: "platform \<Rightarrow> string \<Rightarrow> wire_comment list reply \<Rightarrow> world \<Rightarrow> comment list outcome" where
  "getCommentsForPost pf postId r w =
     (let w1 = await_gateway (Select ''comments'') (latency r) w in
      case rerror r of
        None \<Rightarrow>
          let dbComments = map (mapDbComment pf) (case rdata r of None \<Rightarrow> [] | Some rows \<Rightarrow> rows);
              localComments = localCommentsFor pf postId w1
          in (Inr (js_sort (by_timestamp pf) (dbComments @ localComments)), w1)
      | Some msg \<Rightarrow> (Inr (localCommentsFor pf postId w1), w1))"

subsection \<open>Trainings: write operations\<close>

definition addTraining :: "training \<Rightarrow> unit reply \<Rightarrow> world \<Rightarrow> unit outcome" where
  "addTraining t r w =
     (let w1 = await_gateway (Insert ''trainings'') (latency r) w in
      case rerror r of
        Some msg \<Rightarrow> (Inl (Error (''Impossible d'' @ [CHR 0x27] @ ''ajouter la formation. '' @ msg)), w1)
      | None \<Rightarrow> (Inr (), invalidateCache Trainings w1))"

text \<open>\<^verbatim>\<open>markTrainingCompleted\<close>: the first reply carries the \<^verbatim>\<open>completed_trainings\<close> column
  of the profile, the second answers the update, whose error the code does not look at.
  The progress percentage only goes into the update sent to Supabase.\<close>

definition markTrainingCompleted ::
  "string \<Rightarrow> string \<Rightarrow> string list option single_reply \<Rightarrow> unit reply \<Rightarrow> world \<Rightarrow> unit outcome" where
  "markTrainingCompleted userId trainingId r1 r2 w =
     (let w1 = await_gateway (Select ''profiles'') (slatency r1) w in
      case srow r1 of
        Inl msg \<Rightarrow> (Inr (), w1)
      | Inr completed \<Rightarrow>
          let current = (case completed of None \<Rightarrow> [] | Some cs \<Rightarrow> cs) in
          if trainingId \<notin> set current
          then (Inr (), invalidateCache Members (await_gateway (Update ''profiles'') (latency r2) w1))
          else (Inr (), w1))"

subsection \<open>Authentication and profiles\<close>

record session_user =
  su_id :: string
  su_email :: "string option"

text \<open>\<^verbatim>\<open>getCurrentUser\<close>: the session reply carries the user of the session, if any.\<close>

definition getCurrentUser ::
  "platform \<Rightarrow> session_user option single_reply \<Rightarrow> wire_profile single_reply \<Rightarrow> world \<Rightarrow> member option outcome" where
  "getCurrentUser pf rs rp w =
     (let w1 = await_gateway (Auth ''getSession'') (slatency rs) w in
      case srow rs of
        Inl msg \<Rightarrow> (Inr None, w1)
      | Inr None \<Rightarrow> (Inr None, w1)
      | Inr (Some u) \<Rightarrow>
          (case (if isCacheValid Members w1 \<and> data (members w1) \<noteq> None
                 then find (\<lambda>m. mb_id m = su_id u) (the (data (members w1))) else None) of
             Some cachedUser \<Rightarrow> (Inr (Some (cachedUser\<lparr>mb_email := su_email u\<rparr>)), w1)
           | None \<Rightarrow>
               let w2 = await_gateway (Select ''profiles'') (slatency rp) w1 in
               (case srow rp of
                  Inl msg \<Rightarrow> (Inr None, w2)
                | Inr profile \<Rightarrow>
                    (Inr (Some (mapProfileToMember pf (profile\<lparr>wpr_email := su_email u\<rparr>))), w2))))"

definition login ::
  "platform \<Rightarrow> session_user option single_reply \<Rightarrow> session_user option single_reply
     \<Rightarrow> wire_profile single_reply \<Rightarrow> world \<Rightarrow> member option outcome" where
  "login pf r rs rp w =
     (let w1 = await_gateway (Auth ''signInWithPassword'') (slatency r) w in
      case srow r of
        Inl msg \<Rightarrow> (Inl (GatewayError msg), w1)
      | Inr (Some u) \<Rightarrow> getCurrentUser pf rs rp w1
      | Inr None \<Rightarrow> (Inr None, w1))"

definition logout :: "unit reply \<Rightarrow> world \<Rightarrow> unit outcome" where
  "logout r w =
     (let w1 = await_gateway (Auth ''signOut'') (latency r) w in
      (Inr (), invalidateCache Messages (invalidateCache Trainings
                 (invalidateCache Posts (invalidateCache Members w1)))))"

definition e_acute :: string where
  "e_acute = [CHR 0xC3, CHR 0xA9]"

definition a_grave :: string where
  "a_grave = [CHR 0xC3, CHR 0xA0]"

definition E_acute :: string where
  "E_acute = [CHR 0xC3, CHR 0x89]"

text \<open>\<^verbatim>\<open>register\<close>: \<open>email\<close> and \<open>password\<close> are the two required fields of
  \<open>userData\<close>; the other fields only go into the requests.\<close>

definition register ::
  "platform \<Rightarrow> string option \<Rightarrow> string option \<Rightarrow> session_user option single_reply \<Rightarrow> unit reply
     \<Rightarrow> session_user option single_reply \<Rightarrow> wire_profile single_reply \<Rightarrow> world \<Rightarrow> member outcome" where
  "register pf email password r ru rs rp w =
     (if \<not> truthy email \<or> \<not> truthy password then (Inl (Error ''Email et mot de passe requis''), w)
      else
        let w1 = await_gateway (Auth ''signUp'') (slatency r) w in
        case srow r of
          Inl msg \<Rightarrow> (Inl (GatewayError msg), w1)
        | Inr None \<Rightarrow> (Inl (Error (''Erreur cr'' @ e_acute @ ''ation utilisateur'')), w1)
        | Inr (Some u) \<Rightarrow>
            let w2 = invalidateCache Members (await_gateway (Update ''profiles'') (latency ru) w1) in
            (case getCurrentUser pf rs rp w2 of
               (Inr (Some user), w3) \<Rightarrow> (Inr user, w3)
             | (Inr None, w3) \<Rightarrow>
                 (Inl (Error (''Erreur r'' @ e_acute @ ''cup'' @ e_acute @ ''ration profil apr''
                    @ [CHR 0xC3, CHR 0xA8] @ ''s cr'' @ e_acute @ ''ation'')), w3)
             | (Inl e, w3) \<Rightarrow> (Inl e, w3)))"

definition updateUserLocation ::
  "string \<Rightarrow> real \<Rightarrow> real \<Rightarrow> string option \<Rightarrow> string option \<Rightarrow> unit reply \<Rightarrow> world \<Rightarrow> unit outcome" where
  "updateUserLocation userId coords_lat coords_lng details_city details_address r w =
     (let w1 = await_gateway (Update ''profiles'') (latency r) w in
      case rerror r of
        Some msg \<Rightarrow>
          (Inl (Error (''Impossible de mettre '' @ a_grave @ '' jour la localisation. '' @ msg)), w1)
      | None \<Rightarrow>
          (case data (members w1) of
             Some cached \<Rightarrow>
               (Inr (),
                w1\<lparr>members := (members w1)\<lparr>data := Some (map (\<lambda>m.
                  if mb_id m = userId
                  then m\<lparr>mb_location :=
                         \<lparr> lat = coords_lat, lng = coords_lng,
                           address = (if truthy details_address then the details_address
                                      else address (mb_location m)),
                           city = (if truthy details_city then the details_city
                                   else city (mb_location m)) \<rparr>\<rparr>
                  else m) cached)\<rparr>\<rparr>)
           | None \<Rightarrow> (Inr (), invalidateCache Members w1)))"

definition updateUser ::
  "platform \<Rightarrow> string \<Rightarrow> unit reply \<Rightarrow> session_user option single_reply \<Rightarrow> wire_profile single_reply
     \<Rightarrow> world \<Rightarrow> member option outcome" where
  "updateUser pf userId r rs rp w =
     (let w1 = await_gateway (Update ''profiles'') (latency r) w in
      case rerror r of
        Some msg \<Rightarrow>
          (Inl (Error (E_acute @ ''chec de la mise '' @ a_grave @ '' jour du profil. '' @ msg)), w1)
      | None \<Rightarrow> getCurrentUser pf rs rp (invalidateCache Members w1))"

subsection \<open>The operations as one type\<close>

text \<open>One constructor per operation of the service that reads or writes the cache, with
  its arguments and the replies it receives. The remaining operations (notifications,
  strategic goals, victories) only use other \<^verbatim>\<open>localStorage\<close> keys.\<close>

datatype call =
    GetCurrentUser "session_user option single_reply" "wire_profile single_reply"
  | Login "session_user option single_reply" "session_user option single_reply" "wire_profile single_reply"
  | Logout "unit reply"
  | Register "string option" "string option" "session_user option single_reply" "unit reply"
      "session_user option single_reply" "wire_profile single_reply"
  | UpdateUserLocation string real real "string option" "string option" "unit reply"
  | UpdateUser string "unit reply" "session_user option single_reply" "wire_profile single_reply"
  | GetAllMembers "wire_profile list reply"
  | GetPosts bool "wire_post list reply"
  | AddPost post "unit reply"
  | UpdatePost post "unit reply"
  | AddComment string string "string option" "unit reply"
  | GetCommentsForPost string "wire_comment list reply"
  | GetTrainings "wire_training list reply"
  | AddTraining training "unit reply"
  | MarkTrainingCompleted string string "string list option single_reply" "unit reply"
  | SyncMessageCache "message list"
  | GetDiscussionMessages int "string option" "wire_message list reply"
  | AddDiscussionMessage "wire_message single_reply"
  | DeleteDiscussionMessage string "unit reply"

text \<open>The world an operation leaves behind, whether it returns or throws.\<close>

fun perform :: "platform \<Rightarrow> constants \<Rightarrow> call \<Rightarrow> world \<Rightarrow> world" where
  "perform pf K (GetCurrentUser rs rp) w = snd (getCurrentUser pf rs rp w)"
| "perform pf K (Login r rs rp) w = snd (login pf r rs rp w)"
| "perform pf K (Logout r) w = snd (logout r w)"
| "perform pf K (Register email password r ru rs rp) w = snd (register pf email password r ru rs rp w)"
| "perform pf K (UpdateUserLocation userId la lo ci ad r) w = snd (updateUserLocation userId la lo ci ad r w)"
| "perform pf K (UpdateUser userId r rs rp) w = snd (updateUser pf userId r rs rp w)"
| "perform pf K (GetAllMembers r) w = snd (getAllMembers pf K r w)"
| "perform pf K (GetPosts forceRefresh r) w = snd (getPosts pf K forceRefresh r w)"
| "perform pf K (AddPost p r) w = snd (addPost p r w)"
| "perform pf K (UpdatePost p r) w = snd (updatePost p r w)"
| "perform pf K (AddComment postId content authorId r) w = snd (addComment pf postId content authorId r w)"
| "perform pf K (GetCommentsForPost postId r) w = snd (getCommentsForPost pf postId r w)"
| "perform pf K (GetTrainings r) w = snd (getTrainings pf K r w)"
| "perform pf K (AddTraining t r) w = snd (addTraining t r w)"
| "perform pf K (MarkTrainingCompleted userId trainingId r1 r2) w = snd (markTrainingCompleted userId trainingId r1 r2 w)"
| "perform pf K (SyncMessageCache ms) w = syncMessageCache ms w"
| "perform pf K (GetDiscussionMessages limit beforeTimestamp r) w = snd (getDiscussionMessages pf limit beforeTimestamp r w)"
| "perform pf K (AddDiscussionMessage r) w = snd (addDiscussionMessage pf r w)"
| "perform pf K (DeleteDiscussionMessage messageId r) w = snd (deleteDiscussionMessage messageId r w)"

text \<open>The invariant of the cache entries: an entry without data has time stamp \<open>0\<close>.\<close>

definition cache_inv :: "world \<Rightarrow> bool" where
  "cache_inv w =
     ((data (members w) = None \<longrightarrow> timestamp (members w) = 0) \<and>
      (data (posts w) = None \<longrightarrow> timestamp (posts w) = 0) \<and>
      (data (trainings w) = None \<longrightarrow> timestamp (trainings w) = 0) \<and>
      (data (messages w) = None \<longrightarrow> timestamp (messages w) = 0))"

subsection \<open>Example values\<close>

text \<open>A platform with a 24-hour clock, and small records, replies and worlds on which the
  theorems below are instantiated.\<close>

text \<open>\<^verbatim>\<open>new Date(ms).toISOString()\<close>: the date and time of day in UTC of a number of
  milliseconds since the epoch. The civil date comes from the number of days since the
  epoch, counted in eras of 400 years that start on 1 March.\<close>

definition pad :: "nat \<Rightarrow> nat \<Rightarrow> string" where
  "pad width n = replicate (width - length (show_nat n)) (CHR ''0'') @ show_nat n"

definition day_of_era :: "int \<Rightarrow> int" where
  "day_of_era days = (days + 719468) mod 146097"

definition year_of_era :: "int \<Rightarrow> int" where
  "year_of_era doe = (doe - doe div 1460 + doe div 36524 - doe div 146096) div 365"

definition day_of_year :: "int \<Rightarrow> int" where
  "day_of_year doe =
     doe - (365 * year_of_era doe + year_of_era doe div 4 - year_of_era doe div 100)"

definition month_index :: "int \<Rightarrow> int" where
  "month_index doy = (5 * doy + 2) div 153"

definition civil_day :: "int \<Rightarrow> int" where
  "civil_day days =
     day_of_year (day_of_era days)
       - (153 * month_index (day_of_year (day_of_era days)) + 2) div 5 + 1"

definition civil_month :: "int \<Rightarrow> int" where
  "civil_month days =
     (if month_index (day_of_year (day_of_era days)) < 10
      then month_index (day_of_year (day_of_era days)) + 3
      else month_index (day_of_year (day_of_era days)) - 9)"

definition civil_year :: "int \<Rightarrow> int" where
  "civil_year days =
     year_of_era (day_of_era days) + ((days + 719468) div 146097) * 400
       + (if civil_month days \<le> 2 then 1 else 0)"

definition year_string :: "int \<Rightarrow> string" where
  "year_string y =
     (if 0 \<le> y \<and> y \<le> 9999 then pad 4 (nat y)
      else (if y < 0 then ''-'' else ''+'') @ pad 6 (nat \<bar>y\<bar>))"

definition utc_iso_string :: "int \<Rightarrow> string" where
  "utc_iso_string ms =
     year_string (civil_year (ms div 86400000)) @ ''-''
     @ pad 2 (nat (civil_month (ms div 86400000))) @ ''-''
     @ pad 2 (nat (civil_day (ms div 86400000))) @ ''T''
     @ pad 2 (nat (ms mod 86400000 div 3600000)) @ '':''
     @ pad 2 (nat (ms mod 86400000 div 60000 mod 60)) @ '':''
     @ pad 2 (nat (ms mod 86400000 div 1000 mod 60)) @ ''.''
     @ pad 3 (nat (ms mod 1000)) @ ''Z''"

definition demo_platform :: platform where
  "demo_platform =
     \<lparr> encodeURIComponent = (\<lambda>s. s),
       toLocaleDateString = take 10,
       toLocaleDateStringFr = take 16,
       toLocaleTimeString = (\<lambda>s. take 5 (drop 11 s)),
       toISOString = utc_iso_string,
       localeCompare = (\<lambda>a b. if a = b then 0 else if a < b then - 1 else 1) \<rparr>"

definition demo_wire_message :: "nat \<Rightarrow> wire_message" where
  "demo_wire_message n =
     \<lparr> wm_id = ''m'' @ show_nat n, wm_author_id = Some ''u1'', wm_content = ''hello'',
       wm_created_at = ''2024-05-01T10:'' @ show_nat (10 + n) @ '':00Z'',
       wm_profiles = Some \<lparr> wa_name = Some ''Awa'', wa_avatar_url = Some ''a.png'' \<rparr> \<rparr>"

definition demo_message :: "nat \<Rightarrow> message" where
  "demo_message n = mapMessage demo_platform (demo_wire_message n)"

definition demo_post :: "string \<Rightarrow> int \<Rightarrow> post" where
  "demo_post pid n =
     \<lparr> po_id = pid, po_authorId = Some ''u1'', po_content = ''news'', po_type = ''info'',
       po_likes = n, po_comments = Some 0, po_timestamp = ''1 mai 10:00'', po_image = None,
       po_likedBy = [], po_commentsList = [], po_authorName = ''Awa'', po_authorAvatar = ''a.png'' \<rparr>"

definition demo_member :: "string \<Rightarrow> member" where
  "demo_member mid =
     \<lparr> mb_id = mid, mb_name = ''Awa'', mb_email = None, mb_businessName = ''Atelier'',
       mb_sector = ''Textile'',
       mb_location = \<lparr> lat = 0, lng = 0, address = [], city = ''Kinshasa'' \<rparr>,
       mb_avatar = ''a.png'', mb_joinedDate = ''2024-01-01'', mb_status = ''En Formation'',
       mb_trainingProgress = 0, mb_badges = [], mb_role = ''MEMBER'', mb_completedTrainings = [] \<rparr>"

definition demo_training :: "string \<Rightarrow> training" where
  "demo_training tid =
     \<lparr> tr_id = tid, tr_title = ''Gestion'', tr_description = ''Bases'', tr_type = ''video'',
       tr_url = ''t.mp4'', tr_duration = None, tr_dateAdded = ''2024-01-01'', tr_authorName = None \<rparr>"

definition demo_constants :: constants where
  "demo_constants =
     \<lparr> MOCK_MEMBERS = [demo_member ''mock''], MOCK_POSTS = [demo_post ''mock'' 0],
       MOCK_TRAININGS = [demo_training ''mock''] \<rparr>"

definition reply_failed :: "'r reply" where
  "reply_failed = \<lparr> rdata = None, rerror = Some ''Failed to fetch'', latency = 40 \<rparr>"

definition reply_ok :: "'r \<Rightarrow> 'r reply" where
  "reply_ok x = \<lparr> rdata = Some x, rerror = None, latency = 40 \<rparr>"

text \<open>A world whose four entries were all fetched at time \<open>1000\<close>, looked at at time
  \<open>now\<close>.\<close>

definition demo_world :: "int \<Rightarrow> world" where
  "demo_world now =
     \<lparr> members = \<lparr> data = Some [demo_member ''u1''], timestamp = 1000 \<rparr>,
       posts = \<lparr> data = Some [demo_post ''p2'' 0, demo_post ''p1'' 3], timestamp = 1000 \<rparr>,
       trainings = \<lparr> data = Some [demo_training ''t1''], timestamp = 1000 \<rparr>,
       messages = \<lparr> data = Some [demo_message 1, demo_message 2], timestamp = 1000 \<rparr>,
       pr_local_comments = None, clock = now, gateway_log = [] \<rparr>"

text \<open>The replacement that \<^verbatim>\<open>updatePost\<close> applies to the cached posts.\<close>

definition replace_post :: "post \<Rightarrow> post list \<Rightarrow> post list" where
  "replace_post p cached = map (\<lambda>q. if po_id q = po_id p then p else q) cached"

text \<open>The number of cached messages with a given id.\<close>

definition count_id :: "string \<Rightarrow> message list \<Rightarrow> nat" where
  "count_id i ms = length (filter (\<lambda>m. dm_id m = i) ms)"

text \<open>The chat with the messages 5 to 10 cached, oldest first, and a page of older
  messages as Supabase sends it, newest first, whose first row is message 5 again.\<close>

definition chat_world :: world where
  "chat_world =
     (demo_world 2000)\<lparr>messages :=
        \<lparr> data = Some [demo_message 5, demo_message 6, demo_message 7, demo_message 8,
                        demo_message 9, demo_message 10],
          timestamp = 1000 \<rparr>\<rparr>"

definition older_page :: "wire_message list reply" where
  "older_page =
     reply_ok [demo_wire_message 5, demo_wire_message 4, demo_wire_message 3,
               demo_wire_message 2, demo_wire_message 1]"

text \<open>A reply of \<^verbatim>\<open>.single()\<close> that carries a row.\<close>

definition single_ok :: "'r \<Rightarrow> 'r single_reply" where
  "single_ok x = \<lparr> srow = Inr x, slatency = 40 \<rparr>"

text \<open>A chat in which message 5 arrived twice: a change notification put it into the
  cache through \<open>syncMessageCache\<close> before \<open>addDiscussionMessage\<close>, which had sent it,
  appended it again.\<close>

definition duplicated_chat_world :: world where
  "duplicated_chat_world =
     perform demo_platform demo_constants (AddDiscussionMessage (single_ok (demo_wire_message 5)))
       (perform demo_platform demo_constants (SyncMessageCache [demo_message 5])
          (initial_world 2000))"

text \<open>The world left by an \<open>addComment\<close> on post \<open>p1\<close> whose insert failed, on 2 May 2024
  at 08:00 UTC, and a reply with one comment of \<open>p1\<close> written the day before at 09:00.\<close>

definition queued_world :: world where
  "queued_world =
     snd (addComment demo_platform ''p1'' ''merci'' (Some ''u1'') reply_failed
            (initial_world 1714636799960))"

definition demo_wire_comment :: "string \<Rightarrow> string \<Rightarrow> wire_comment" where
  "demo_wire_comment i t =
     \<lparr> wc_id = i, wc_content = ''bravo'', wc_created_at = t,
       wc_profiles = Some \<lparr> wa_name = Some ''Awa'', wa_avatar_url = None \<rparr> \<rparr>"

definition day_before_reply :: "wire_comment list reply" where
  "day_before_reply = reply_ok [demo_wire_comment ''c1'' ''2024-05-01T09:00:00.000Z'']"

section \<open>Properties\<close>

subsection \<open>Facts about single steps\<close>

lemma gateway_log_await [simp]: "gateway_log (await_gateway rq ms w) = gateway_log w @ [rq]"
  by (simp add: await_gateway_def)

lemma cache_await [simp]:
  "members (await_gateway rq ms w) = members w"
  "posts (await_gateway rq ms w) = posts w"
  "trainings (await_gateway rq ms w) = trainings w"
  "messages (await_gateway rq ms w) = messages w"
  "pr_local_comments (await_gateway rq ms w) = pr_local_comments w"
  by (simp_all add: await_gateway_def)

lemma getAllMembers_fresh:
  "isCacheValid Members w \<Longrightarrow> getAllMembers pf K r w = (Inr (the (data (members w))), w)"
  by (simp add: getAllMembers_def isCacheValid_def has_data_def)

lemma getPosts_fresh:
  "isCacheValid Posts w \<Longrightarrow> getPosts pf K False r w = (Inr (the (data (posts w))), w)"
  by (simp add: getPosts_def isCacheValid_def has_data_def)




lemma getAllMembers_stale:
  "\<not> isCacheValid Members w
   \<Longrightarrow> gateway_log (snd (getAllMembers pf K r w)) = gateway_log w @ [Select ''profiles'']"
  by (auto simp add: getAllMembers_def Let_def split: sum.splits option.splits)





lemmas demo_world_simps =
  isCacheValid_def has_data_def fetchedAt_def demo_world_def CACHE_DURATION_def

subsection \<open>Freshness\<close>




subsection \<open>Reads degrade on failure\<close>

lemma getAllMembers_failed:
  "rerror r \<noteq> None \<or> rdata r = None \<Longrightarrow>
   fst (getAllMembers pf K r w) = Inr (case data (members w) of Some cached \<Rightarrow> cached | None \<Rightarrow> MOCK_MEMBERS K)
   \<and> members (snd (getAllMembers pf K r w)) = members w"
  by (auto simp add: getAllMembers_def Let_def rows_or_throw_def split: sum.splits option.splits)

lemma getPosts_failed:
  "rerror r \<noteq> None \<or> rdata r = None \<Longrightarrow>
   fst (getPosts pf K force r w) = Inr (case data (posts w) of Some cached \<Rightarrow> cached | None \<Rightarrow> MOCK_POSTS K)
   \<and> posts (snd (getPosts pf K force r w)) = posts w"
  by (auto simp add: getPosts_def Let_def rows_or_throw_def split: sum.splits option.splits)

lemma getTrainings_failed:
  "rerror r \<noteq> None \<or> rdata r = None \<Longrightarrow>
   fst (getTrainings pf K r w) = Inr (case data (trainings w) of Some cached \<Rightarrow> cached | None \<Rightarrow> MOCK_TRAININGS K)
   \<and> trainings (snd (getTrainings pf K r w)) = trainings w"
  by (auto simp add: getTrainings_def Let_def rows_or_throw_def split: sum.splits option.splits)

lemma getAllMembers_returns: "\<exists>v. fst (getAllMembers pf K r w) = Inr v"
  by (auto simp add: getAllMembers_def Let_def split: sum.splits option.splits)

lemma getPosts_returns: "\<exists>v. fst (getPosts pf K force r w) = Inr v"
  by (auto simp add: getPosts_def Let_def split: sum.splits option.splits)

lemma getTrainings_returns: "\<exists>v. fst (getTrainings pf K r w) = Inr v"
  by (auto simp add: getTrainings_def Let_def split: sum.splits option.splits)

text \<open>
  Claim C2. A Supabase call fails when its reply carries an error, or carries neither
  error nor rows (then \<^verbatim>\<open>data.map\<close> throws inside the \<^verbatim>\<open>try\<close> block). In that case
  \<open>getPosts\<close>, \<open>getAllMembers\<close> and \<open>getTrainings\<close> return the cached sequence when the
  entry holds one, stale or not, and the static fallback dataset otherwise. Whatever the
  reply, the three operations end with a value and never with an exception.
\<close>

theorem reads_degrade_on_failure:
  "(rerror r1 \<noteq> None \<or> rdata r1 = None \<longrightarrow>
      fst (getPosts pf K force r1 w) =
        Inr (case data (posts w) of Some cached \<Rightarrow> cached | None \<Rightarrow> MOCK_POSTS K)) \<and>
   (rerror r2 \<noteq> None \<or> rdata r2 = None \<longrightarrow>
      fst (getAllMembers pf K r2 w) =
        Inr (case data (members w) of Some cached \<Rightarrow> cached | None \<Rightarrow> MOCK_MEMBERS K)) \<and>
   (rerror r3 \<noteq> None \<or> rdata r3 = None \<longrightarrow>
      fst (getTrainings pf K r3 w) =
        Inr (case data (trainings w) of Some cached \<Rightarrow> cached | None \<Rightarrow> MOCK_TRAININGS K)) \<and>
   (\<exists>v. fst (getPosts pf K force r1 w) = Inr v) \<and>
   (\<exists>v. fst (getAllMembers pf K r2 w) = Inr v) \<and>
   (\<exists>v. fst (getTrainings pf K r3 w) = Inr v)"
proof (intro conjI impI)
  show "\<exists>v. fst (getPosts pf K force r1 w) = Inr v" by (rule getPosts_returns)
  show "\<exists>v. fst (getAllMembers pf K r2 w) = Inr v" by (rule getAllMembers_returns)
  show "\<exists>v. fst (getTrainings pf K r3 w) = Inr v" by (rule getTrainings_returns)
qed (simp_all add: getPosts_failed getAllMembers_failed getTrainings_failed)

theorem reads_degrade_on_failure_witness:
  "rerror (reply_failed :: wire_post list reply) \<noteq> None \<and>
   \<not> isCacheValid Posts (demo_world 900000) \<and>
   fst (getPosts demo_platform demo_constants True reply_failed (demo_world 900000)) =
     Inr [demo_post ''p2'' 0, demo_post ''p1'' 3] \<and>
   fst (getAllMembers demo_platform demo_constants reply_failed (demo_world 900000)) =
     Inr [demo_member ''u1''] \<and>
   fst (getTrainings demo_platform demo_constants reply_failed (demo_world 900000)) =
     Inr [demo_training ''t1''] \<and>
   fst (getPosts demo_platform demo_constants False reply_failed (initial_world 5)) =
     Inr [demo_post ''mock'' 0] \<and>
   fst (getAllMembers demo_platform demo_constants reply_failed (initial_world 5)) =
     Inr [demo_member ''mock''] \<and>
   fst (getTrainings demo_platform demo_constants reply_failed (initial_world 5)) =
     Inr [demo_training ''mock'']"
  using reads_degrade_on_failure [where ?r1.0 = reply_failed and ?r2.0 = reply_failed
      and ?r3.0 = reply_failed and pf = demo_platform and K = demo_constants
      and w = "demo_world 900000" and force = True]
    reads_degrade_on_failure [where ?r1.0 = reply_failed and ?r2.0 = reply_failed
      and ?r3.0 = reply_failed and pf = demo_platform and K = demo_constants
      and w = "initial_world 5" and force = False]
  by (simp add: demo_world_simps reply_failed_def initial_world_def empty_entry_def demo_constants_def)

subsection \<open>The freshness window\<close>

text \<open>
  Claim C8, as the code has it. There is one freshness window for all four kinds,
  \<open>CACHE_DURATION\<close>, which is five minutes (300000 ms) and not thirty: a \<open>getAllMembers\<close>
  call less than five minutes after the entry was fetched is served from the cache, and a
  call five minutes after it or later makes a Supabase call.
\<close>

theorem single_freshness_window:
  "CACHE_DURATION = 300000 \<and>
   (isCacheValid k w \<longleftrightarrow> has_data k w \<and> clock w - fetchedAt k w < 300000) \<and>
   (has_data Members w \<and> clock w - fetchedAt Members w < 300000 \<longrightarrow>
      getAllMembers pf K r w = (Inr (the (data (members w))), w)) \<and>
   (300000 \<le> clock w - fetchedAt Members w \<longrightarrow>
      gateway_log (snd (getAllMembers pf K r w)) = gateway_log w @ [Select ''profiles''])"
proof (intro conjI impI)
  show d: "CACHE_DURATION = 300000" by (simp add: CACHE_DURATION_def)
  show "isCacheValid k w \<longleftrightarrow> has_data k w \<and> clock w - fetchedAt k w < 300000"
    by (simp add: isCacheValid_def d)
  show "getAllMembers pf K r w = (Inr (the (data (members w))), w)"
    if "has_data Members w \<and> clock w - fetchedAt Members w < 300000"
    using that by (intro getAllMembers_fresh) (simp add: isCacheValid_def d)
  show "gateway_log (snd (getAllMembers pf K r w)) = gateway_log w @ [Select ''profiles'']"
    if "300000 \<le> clock w - fetchedAt Members w"
    using that by (intro getAllMembers_stale) (simp add: isCacheValid_def d)
qed

theorem single_freshness_window_witness:
  "has_data Members (demo_world 300999) \<and>
   clock (demo_world 300999) - fetchedAt Members (demo_world 300999) < 300000 \<and>
   getAllMembers demo_platform demo_constants reply_failed (demo_world 300999) =
     (Inr [demo_member ''u1''], demo_world 300999) \<and>
   300000 \<le> clock (demo_world 301000) - fetchedAt Members (demo_world 301000) \<and>
   gateway_log (snd (getAllMembers demo_platform demo_constants reply_failed (demo_world 301000))) =
     [Select ''profiles'']"
proof -
  have fresh: "has_data Members (demo_world 300999) \<and>
      clock (demo_world 300999) - fetchedAt Members (demo_world 300999) < 300000"
    by (simp add: has_data_def fetchedAt_def demo_world_def)
  have stale: "300000 \<le> clock (demo_world 301000) - fetchedAt Members (demo_world 301000)"
    by (simp add: fetchedAt_def demo_world_def)
  have "getAllMembers demo_platform demo_constants reply_failed (demo_world 300999) =
     (Inr (the (data (members (demo_world 300999)))), demo_world 300999)"
    using single_freshness_window [where k = Members and w = "demo_world 300999"
      and pf = demo_platform and K = demo_constants and r = reply_failed] fresh
    by blast
  moreover have "the (data (members (demo_world 300999))) = [demo_member ''u1'']"
    by (simp add: demo_world_def)
  moreover have "gateway_log (snd (getAllMembers demo_platform demo_constants reply_failed (demo_world 301000))) =
     gateway_log (demo_world 301000) @ [Select ''profiles'']"
    using single_freshness_window [where k = Members and w = "demo_world 301000"
      and pf = demo_platform and K = demo_constants and r = reply_failed] stale
    by blast
  moreover have "gateway_log (demo_world 301000) = []"
    by (simp add: demo_world_def)
  ultimately show ?thesis using fresh stale by simp
qed

text \<open>Ten minutes after the fetch, well inside a window of thirty minutes, \<open>getAllMembers\<close>
  calls Supabase.\<close>

theorem members_ttl_counterexample:
  "has_data Members (demo_world 601000)
   \<and> clock (demo_world 601000) - fetchedAt Members (demo_world 601000) < 30 * 60 * 1000
   \<and> gateway_log (demo_world 601000) = []
   \<and> gateway_log (snd (getAllMembers demo_platform demo_constants (reply_ok [])
        (demo_world 601000))) = [Select ''profiles'']"
  by (simp add: demo_world_simps getAllMembers_def reply_ok_def rows_or_throw_def Let_def
      await_gateway_def)

subsection \<open>Optimistic update of a post\<close>

lemma updatePost_patch_posts:
  "data (posts w) = Some cached \<Longrightarrow>
   posts (updatePost_patch p w) = (posts w)\<lparr>data := Some (replace_post p cached)\<rparr>"
  by (simp add: updatePost_patch_def replace_post_def)

lemma updatePost_patch_log: "gateway_log (updatePost_patch p w) = gateway_log w"
  by (simp add: updatePost_patch_def split: option.splits)

lemma updatePost_patch_clock: "clock (updatePost_patch p w) = clock w"
  by (simp add: updatePost_patch_def split: option.splits)

lemma updatePost_send_eq:
  "updatePost_send r w = (Inr (), await_gateway (Update ''posts'') (latency r) w)"
  by (simp add: updatePost_send_def Let_def split: option.splits)

lemma replace_post_mem:
  "q \<in> set cached \<Longrightarrow> po_id q = po_id p \<Longrightarrow> p \<in> set (replace_post p cached)"
  by (force simp add: replace_post_def)

lemma demo_post_id [simp]: "po_id (demo_post pid n) = pid"
  by (simp add: demo_post_def)

text \<open>
  Claim C3. \<open>updatePost\<close> first replaces the matching record in the cached posts, with
  the log of Supabase calls still as it was, and only then sends the update. Whatever the
  reply, it returns normally and the patched sequence stays in the cache. So a
  \<open>getPosts\<close> without \<open>forceRefresh\<close> on a fresh entry, made right after the patch or
  after \<open>updatePost\<close> has returned, gives the patched sequence, which contains the new
  record wherever the cache held a record with its id.
\<close>

theorem updatePost_is_optimistic:
  "data (posts w) = Some cached \<longrightarrow>
     posts (updatePost_patch p w) = (posts w)\<lparr>data := Some (replace_post p cached)\<rparr> \<and>
     gateway_log (updatePost_patch p w) = gateway_log w \<and>
     updatePost p r w = (Inr (), await_gateway (Update ''posts'') (latency r) (updatePost_patch p w)) \<and>
     gateway_log (snd (updatePost p r w)) = gateway_log w @ [Update ''posts''] \<and>
     posts (snd (updatePost p r w)) = (posts w)\<lparr>data := Some (replace_post p cached)\<rparr> \<and>
     (isCacheValid Posts (updatePost_patch p w) \<longrightarrow>
        getPosts pf K False r' (updatePost_patch p w) =
          (Inr (replace_post p cached), updatePost_patch p w)) \<and>
     (isCacheValid Posts (snd (updatePost p r w)) \<longrightarrow>
        getPosts pf K False r' (snd (updatePost p r w)) =
          (Inr (replace_post p cached), snd (updatePost p r w))) \<and>
     (\<forall>q \<in> set cached. po_id q = po_id p \<longrightarrow> p \<in> set (replace_post p cached))"
proof (intro impI)
  assume c: "data (posts w) = Some cached"
  have patch: "posts (updatePost_patch p w) = (posts w)\<lparr>data := Some (replace_post p cached)\<rparr>"
    using c by (rule updatePost_patch_posts)
  have upd: "updatePost p r w = (Inr (), await_gateway (Update ''posts'') (latency r) (updatePost_patch p w))"
    by (simp add: updatePost_def updatePost_send_eq)
  have after: "posts (snd (updatePost p r w)) = (posts w)\<lparr>data := Some (replace_post p cached)\<rparr>"
    by (simp add: upd patch)
  have log: "gateway_log (snd (updatePost p r w)) = gateway_log w @ [Update ''posts'']"
    by (simp add: upd updatePost_patch_log)
  have read1: "getPosts pf K False r' (updatePost_patch p w) =
          (Inr (replace_post p cached), updatePost_patch p w)"
    if "isCacheValid Posts (updatePost_patch p w)"
    using getPosts_fresh [OF that, of pf K r'] by (simp add: patch)
  have read2: "getPosts pf K False r' (snd (updatePost p r w)) =
          (Inr (replace_post p cached), snd (updatePost p r w))"
    if "isCacheValid Posts (snd (updatePost p r w))"
    using getPosts_fresh [OF that, of pf K r'] by (simp add: after)
  show "posts (updatePost_patch p w) = (posts w)\<lparr>data := Some (replace_post p cached)\<rparr> \<and>
     gateway_log (updatePost_patch p w) = gateway_log w \<and>
     updatePost p r w = (Inr (), await_gateway (Update ''posts'') (latency r) (updatePost_patch p w)) \<and>
     gateway_log (snd (updatePost p r w)) = gateway_log w @ [Update ''posts''] \<and>
     posts (snd (updatePost p r w)) = (posts w)\<lparr>data := Some (replace_post p cached)\<rparr> \<and>
     (isCacheValid Posts (updatePost_patch p w) \<longrightarrow>
        getPosts pf K False r' (updatePost_patch p w) =
          (Inr (replace_post p cached), updatePost_patch p w)) \<and>
     (isCacheValid Posts (snd (updatePost p r w)) \<longrightarrow>
        getPosts pf K False r' (snd (updatePost p r w)) =
          (Inr (replace_post p cached), snd (updatePost p r w))) \<and>
     (\<forall>q \<in> set cached. po_id q = po_id p \<longrightarrow> p \<in> set (replace_post p cached))"
    using patch updatePost_patch_log [of p w] upd log after read1 read2 replace_post_mem [of _ cached p]
    by blast
qed

theorem updatePost_is_optimistic_witness:
  "data (posts (demo_world 2000)) = Some [demo_post ''p2'' 0, demo_post ''p1'' 3] \<and>
   isCacheValid Posts (snd (updatePost (demo_post ''p1'' 4) reply_failed (demo_world 2000))) \<and>
   fst (updatePost (demo_post ''p1'' 4) reply_failed (demo_world 2000)) = Inr () \<and>
   fst (getPosts demo_platform demo_constants False reply_failed
          (snd (updatePost (demo_post ''p1'' 4) reply_failed (demo_world 2000)))) =
     Inr [demo_post ''p2'' 0, demo_post ''p1'' 4] \<and>
   gateway_log (snd (getPosts demo_platform demo_constants False reply_failed
          (snd (updatePost (demo_post ''p1'' 4) reply_failed (demo_world 2000))))) =
     [Update ''posts'']"
proof -
  let ?w = "demo_world 2000"
  let ?p = "demo_post ''p1'' 4"
  have c: "data (posts ?w) = Some [demo_post ''p2'' 0, demo_post ''p1'' 3]"
    by (simp add: demo_world_def)
  note t = updatePost_is_optimistic [where w = ?w and p = ?p and r = reply_failed
      and cached = "[demo_post ''p2'' 0, demo_post ''p1'' 3]" and pf = demo_platform
      and K = demo_constants and r' = reply_failed, rule_format, OF c]
  have rp: "replace_post ?p [demo_post ''p2'' 0, demo_post ''p1'' 3] = [demo_post ''p2'' 0, ?p]"
    by (simp add: replace_post_def)
  have ret: "fst (updatePost ?p reply_failed ?w) = Inr ()"
    using t by simp
  have valid: "isCacheValid Posts (snd (updatePost ?p reply_failed ?w))"
    using t
    by (simp add: isCacheValid_def has_data_def fetchedAt_def CACHE_DURATION_def
        await_gateway_def updatePost_patch_clock reply_failed_def demo_world_def)
  have rd: "getPosts demo_platform demo_constants False reply_failed (snd (updatePost ?p reply_failed ?w)) =
      (Inr [demo_post ''p2'' 0, ?p], snd (updatePost ?p reply_failed ?w))"
  proof -
    have "isCacheValid Posts (snd (updatePost ?p reply_failed ?w)) \<longrightarrow>
        getPosts demo_platform demo_constants False reply_failed (snd (updatePost ?p reply_failed ?w)) =
          (Inr (replace_post ?p [demo_post ''p2'' 0, demo_post ''p1'' 3]),
           snd (updatePost ?p reply_failed ?w))"
      using t by blast
    then show ?thesis using valid rp by simp
  qed
  have lg: "gateway_log (snd (updatePost ?p reply_failed ?w)) = [Update ''posts'']"
    using t by (simp add: demo_world_def)
  show ?thesis using c valid ret rd lg by simp
qed

subsection \<open>Deleting a discussion message\<close>

lemma deleteDiscussionMessage_failed:
  "rerror r = Some msg \<Longrightarrow>
   fst (deleteDiscussionMessage i r w) = Inl (Error msg) \<and>
   messages (snd (deleteDiscussionMessage i r w)) = messages w"
  by (simp add: deleteDiscussionMessage_def Let_def)

lemma deleteDiscussionMessage_ok:
  "rerror r = None \<Longrightarrow>
   fst (deleteDiscussionMessage i r w) = Inr () \<and>
   messages (snd (deleteDiscussionMessage i r w)) =
     (case data (messages w) of
        Some cached \<Rightarrow> (messages w)\<lparr>data := Some (filter (\<lambda>m. dm_id m \<noteq> i) cached)\<rparr>
      | None \<Rightarrow> messages w)"
  by (simp add: deleteDiscussionMessage_def Let_def split: option.splits)

lemma filter_absent_id: "i \<notin> dm_id ` set cached \<Longrightarrow> filter (\<lambda>m. dm_id m \<noteq> i) cached = cached"
  by (induction cached) auto

lemma demo_message_id [simp]: "dm_id (demo_message n) = ''m'' @ show_nat n"
  by (simp add: demo_message_def mapMessage_def demo_wire_message_def)

lemma demo_wire_message_id [simp]: "wm_id (demo_wire_message n) = ''m'' @ show_nat n"
  by (simp add: demo_wire_message_def)

lemma show_nat_digits [simp]:
  "show_nat 1 = ''1''" "show_nat 2 = ''2''" "show_nat 3 = ''3''" "show_nat 4 = ''4''"
  "show_nat 5 = ''5''" "show_nat 6 = ''6''" "show_nat 7 = ''7''" "show_nat 8 = ''8''"
  "show_nat 9 = ''9''" "show_nat 10 = ''10''" "show_nat (Suc 0) = ''1''"
  by (simp_all add: show_nat.simps digit_char_def)

lemma mapMessage_id [simp]: "dm_id (mapMessage pf m) = wm_id m"
  by (simp add: mapMessage_def)

text \<open>
  Claim C10. If the Supabase delete fails, \<open>deleteDiscussionMessage\<close> throws an error
  with the message of the failure and leaves the messages entry, data and time stamp, as it
  was. If the delete succeeds, it returns, keeps the time stamp and removes the records
  with the given id from the cached sequence, which changes nothing when the entry holds no
  data or no record with that id.
\<close>

theorem deleteDiscussionMessage_cache:
  "(rerror r = Some msg \<longrightarrow>
      fst (deleteDiscussionMessage i r w) = Inl (Error msg) \<and>
      messages (snd (deleteDiscussionMessage i r w)) = messages w) \<and>
   (rerror r = None \<longrightarrow>
      fst (deleteDiscussionMessage i r w) = Inr () \<and>
      timestamp (messages (snd (deleteDiscussionMessage i r w))) = timestamp (messages w) \<and>
      data (messages (snd (deleteDiscussionMessage i r w))) =
        map_option (filter (\<lambda>m. dm_id m \<noteq> i)) (data (messages w))) \<and>
   (rerror r = None \<and> (data (messages w) = None \<or> i \<notin> dm_id ` set (the (data (messages w)))) \<longrightarrow>
      messages (snd (deleteDiscussionMessage i r w)) = messages w)"
proof (intro conjI impI)
  assume "rerror r = Some msg"
  then show "fst (deleteDiscussionMessage i r w) = Inl (Error msg)"
    and "messages (snd (deleteDiscussionMessage i r w)) = messages w"
    by (simp_all add: deleteDiscussionMessage_failed)
next
  assume ok: "rerror r = None"
  show "fst (deleteDiscussionMessage i r w) = Inr ()"
    using ok by (simp add: deleteDiscussionMessage_ok)
  show "timestamp (messages (snd (deleteDiscussionMessage i r w))) = timestamp (messages w)"
    using ok by (simp add: deleteDiscussionMessage_ok split: option.splits)
  show "data (messages (snd (deleteDiscussionMessage i r w))) =
        map_option (filter (\<lambda>m. dm_id m \<noteq> i)) (data (messages w))"
    using ok by (simp add: deleteDiscussionMessage_ok split: option.splits)
next
  assume a: "rerror r = None \<and> (data (messages w) = None \<or> i \<notin> dm_id ` set (the (data (messages w))))"
  show "messages (snd (deleteDiscussionMessage i r w)) = messages w"
  proof (cases "data (messages w)")
    case None
    then show ?thesis using a by (simp add: deleteDiscussionMessage_ok)
  next
    case (Some cached)
    then have "filter (\<lambda>m. dm_id m \<noteq> i) cached = cached"
      using a by (simp add: filter_absent_id)
    then show ?thesis using a Some by (simp add: deleteDiscussionMessage_ok)
  qed
qed



theorem deleteDiscussionMessage_cache_witness:
  "rerror (reply_failed :: unit reply) = Some ''Failed to fetch'' \<and>
   fst (deleteDiscussionMessage ''m1'' reply_failed (demo_world 2000)) = Inl (Error ''Failed to fetch'') \<and>
   messages (snd (deleteDiscussionMessage ''m1'' reply_failed (demo_world 2000))) =
     messages (demo_world 2000) \<and>
   rerror (reply_ok ()) = None \<and>
   fst (deleteDiscussionMessage ''m1'' (reply_ok ()) (demo_world 2000)) = Inr () \<and>
   data (messages (snd (deleteDiscussionMessage ''m1'' (reply_ok ()) (demo_world 2000)))) =
     Some [demo_message 2] \<and>
   ''m7'' \<notin> dm_id ` set (the (data (messages (demo_world 2000)))) \<and>
   messages (snd (deleteDiscussionMessage ''m7'' (reply_ok ()) (demo_world 2000))) =
     messages (demo_world 2000)"
proof -
  have f: "rerror (reply_failed :: unit reply) = Some ''Failed to fetch''"
    by (simp add: reply_failed_def)
  have k: "rerror (reply_ok ()) = None"
    by (simp add: reply_ok_def)
  have d: "data (messages (demo_world 2000)) = Some [demo_message 1, demo_message 2]"
    by (simp add: demo_world_def)
  have a: "''m7'' \<notin> dm_id ` set (the (data (messages (demo_world 2000))))"
    by (simp add: d)
  note t1 = deleteDiscussionMessage_cache [where r = reply_failed and msg = "''Failed to fetch''"
      and i = "''m1''" and w = "demo_world 2000", THEN conjunct1, rule_format, OF f]
  note t2 = deleteDiscussionMessage_cache [where r = "reply_ok ()" and i = "''m1''"
      and w = "demo_world 2000", THEN conjunct2, THEN conjunct1, rule_format, OF k]
  have t3: "messages (snd (deleteDiscussionMessage ''m7'' (reply_ok ()) (demo_world 2000))) =
     messages (demo_world 2000)"
    using deleteDiscussionMessage_cache [where r = "reply_ok ()" and i = "''m7''"
      and w = "demo_world 2000", THEN conjunct2, THEN conjunct2] k a by blast
  have t2': "data (messages (snd (deleteDiscussionMessage ''m1'' (reply_ok ()) (demo_world 2000)))) =
     Some [demo_message 2]"
    using t2 by (simp add: d)
  show ?thesis using f k a t1 t2 t2' t3 by blast
qed

subsection \<open>Merging a page of older messages\<close>

lemma count_id_append [simp]: "count_id i (xs @ ys) = count_id i xs + count_id i ys"
  by (simp add: count_id_def)

lemma count_id_uniqueNew:
  "i \<in> dm_id ` set cached \<Longrightarrow> count_id i (uniqueNew cached page) = 0"
  by (auto simp add: count_id_def uniqueNew_def filter_empty_conv)

lemma count_id_distinct:
  "distinct (map dm_id cached) \<Longrightarrow> i \<in> dm_id ` set cached \<Longrightarrow> count_id i cached = 1"
proof (induction cached)
  case Nil
  then show ?case by simp
next
  case (Cons m ms)
  show ?case
  proof (cases "dm_id m = i")
    case True
    then have "i \<notin> dm_id ` set ms" using Cons.prems by auto
    then have "filter (\<lambda>x. dm_id x = i) ms = []" by (auto simp add: filter_empty_conv)
    then show ?thesis using True by (simp add: count_id_def)
  next
    case False
    then have "i \<in> dm_id ` set ms" using Cons.prems by auto
    then have "count_id i ms = 1" using Cons by simp
    then show ?thesis using False by (simp add: count_id_def)
  qed
qed

lemma getDiscussionMessages_older:
  "truthy before \<Longrightarrow> rerror r = None \<Longrightarrow> rdata r = Some rows \<Longrightarrow> data (messages w) = Some cached \<Longrightarrow>
   getDiscussionMessages pf limit before r w =
     (Inr (map (mapMessage pf) (rev rows)),
      (await_gateway (Select ''messages'') (latency r) w)
        \<lparr>messages := (messages w)\<lparr>data := Some (uniqueNew cached (map (mapMessage pf) (rev rows)) @ cached)\<rparr>\<rparr>)"
  by (simp add: getDiscussionMessages_def Let_def)

lemma chat_cached:
  "data (messages chat_world) = Some [demo_message 5, demo_message 6, demo_message 7, demo_message 8,
                        demo_message 9, demo_message 10]"
  by (simp add: chat_world_def)

lemma older_page_rows:
  "rerror older_page = None"
  "rdata older_page = Some [demo_wire_message 5, demo_wire_message 4, demo_wire_message 3,
               demo_wire_message 2, demo_wire_message 1]"
  by (simp_all add: older_page_def reply_ok_def)

lemma demo_cursor: "truthy (Some (dm_timestamp (demo_message 5)))"
  by (simp add: truthy_def demo_message_def mapMessage_def demo_wire_message_def)

text \<open>
  Claim C4, as the code has it. When \<open>getDiscussionMessages\<close> is called with a cursor,
  the reply is a page of rows and the cache holds a sequence, the page is reversed to oldest
  first, the records whose id is already cached are dropped, and the rest is put in front of
  the cached sequence; the time stamp of the entry stays. For a record of the page whose id
  is already cached, the merge adds no record with that id and removes none: the merged
  cache holds as many records with that id as the cache did before, which is exactly one
  when the cached ids are distinct.
\<close>

theorem older_page_merge_dedups:
  "truthy before \<and> rerror r = None \<and> rdata r = Some rows \<and> data (messages w) = Some cached \<longrightarrow>
     data (messages (snd (getDiscussionMessages pf limit before r w))) =
       Some (filter (\<lambda>m. dm_id m \<notin> dm_id ` set cached) (map (mapMessage pf) (rev rows)) @ cached) \<and>
     timestamp (messages (snd (getDiscussionMessages pf limit before r w))) = timestamp (messages w) \<and>
     (\<forall>m \<in> set (map (mapMessage pf) (rev rows)). dm_id m \<in> dm_id ` set cached \<longrightarrow>
        count_id (dm_id m) (the (data (messages (snd (getDiscussionMessages pf limit before r w))))) =
          count_id (dm_id m) cached) \<and>
     (distinct (map dm_id cached) \<longrightarrow>
        (\<forall>m \<in> set (map (mapMessage pf) (rev rows)). dm_id m \<in> dm_id ` set cached \<longrightarrow>
           count_id (dm_id m) (the (data (messages (snd (getDiscussionMessages pf limit before r w))))) = 1))"
proof (intro impI)
  assume a: "truthy before \<and> rerror r = None \<and> rdata r = Some rows \<and> data (messages w) = Some cached"
  let ?page = "map (mapMessage pf) (rev rows)"
  let ?w' = "snd (getDiscussionMessages pf limit before r w)"
  have eq: "messages ?w' = (messages w)\<lparr>data := Some (uniqueNew cached ?page @ cached)\<rparr>"
    using a by (simp add: getDiscussionMessages_older)
  have d: "data (messages ?w') = Some (filter (\<lambda>m. dm_id m \<notin> dm_id ` set cached) ?page @ cached)"
    by (simp add: eq uniqueNew_def)
  have t: "timestamp (messages ?w') = timestamp (messages w)"
    by (simp add: eq)
  have c: "count_id i (the (data (messages ?w'))) = count_id i cached" if "i \<in> dm_id ` set cached" for i
    using that by (simp add: eq count_id_uniqueNew)
  have c1: "count_id i (the (data (messages ?w'))) = 1"
    if "i \<in> dm_id ` set cached" "distinct (map dm_id cached)" for i
    using that c count_id_distinct by simp
  show "data (messages ?w') = Some (filter (\<lambda>m. dm_id m \<notin> dm_id ` set cached) ?page @ cached) \<and>
     timestamp (messages ?w') = timestamp (messages w) \<and>
     (\<forall>m \<in> set ?page. dm_id m \<in> dm_id ` set cached \<longrightarrow>
        count_id (dm_id m) (the (data (messages ?w'))) = count_id (dm_id m) cached) \<and>
     (distinct (map dm_id cached) \<longrightarrow>
        (\<forall>m \<in> set ?page. dm_id m \<in> dm_id ` set cached \<longrightarrow>
           count_id (dm_id m) (the (data (messages ?w'))) = 1))"
    using d t c c1 by blast
qed

theorem older_page_merge_dedups_witness:
  "truthy (Some (dm_timestamp (demo_message 5))) \<and> rerror older_page = None \<and>
   distinct (map dm_id [demo_message 5, demo_message 6, demo_message 7, demo_message 8,
                        demo_message 9, demo_message 10]) \<and>
   demo_message 5 \<in> set (map (mapMessage demo_platform) (rev (the (rdata older_page)))) \<and>
   data (messages (snd (getDiscussionMessages demo_platform 5 (Some (dm_timestamp (demo_message 5)))
       older_page chat_world))) =
     Some [demo_message 1, demo_message 2, demo_message 3, demo_message 4, demo_message 5,
           demo_message 6, demo_message 7, demo_message 8, demo_message 9, demo_message 10] \<and>
   count_id (dm_id (demo_message 5))
     (the (data (messages (snd (getDiscussionMessages demo_platform 5
        (Some (dm_timestamp (demo_message 5))) older_page chat_world))))) = 1"
proof -
  let ?cached = "[demo_message 5, demo_message 6, demo_message 7, demo_message 8,
                        demo_message 9, demo_message 10]"
  let ?rows = "[demo_wire_message 5, demo_wire_message 4, demo_wire_message 3,
               demo_wire_message 2, demo_wire_message 1]"
  have h: "truthy (Some (dm_timestamp (demo_message 5))) \<and> rerror older_page = None \<and>
      rdata older_page = Some ?rows \<and> data (messages chat_world) = Some ?cached"
    by (simp add: demo_cursor older_page_rows chat_cached)
  note t = older_page_merge_dedups [where before = "Some (dm_timestamp (demo_message 5))"
      and r = older_page and rows = ?rows and w = chat_world and cached = ?cached
      and pf = demo_platform and limit = 5, rule_format, OF h]
  have dist: "distinct (map dm_id ?cached)" by simp
  have mem: "demo_message 5 \<in> set (map (mapMessage demo_platform) (rev ?rows))"
    by (simp add: demo_message_def)
  have mem': "demo_message 5 \<in> set (map (mapMessage demo_platform) (rev (the (rdata older_page))))"
    using mem by (simp add: older_page_rows)
  have inc: "dm_id (demo_message 5) \<in> dm_id ` set ?cached" by simp
  have one: "count_id (dm_id (demo_message 5))
     (the (data (messages (snd (getDiscussionMessages demo_platform 5
        (Some (dm_timestamp (demo_message 5))) older_page chat_world))))) = 1"
    using t dist mem inc by blast
  have merged: "data (messages (snd (getDiscussionMessages demo_platform 5 (Some (dm_timestamp (demo_message 5)))
       older_page chat_world))) =
     Some [demo_message 1, demo_message 2, demo_message 3, demo_message 4, demo_message 5,
           demo_message 6, demo_message 7, demo_message 8, demo_message 9, demo_message 10]"
    using t by (simp add: demo_message_def)
  show ?thesis
    using h dist mem' one merged by blast
qed

lemma duplicated_chat_cached:
  "data (messages duplicated_chat_world) = Some [demo_message 5, demo_message 5]"
  by (simp add: duplicated_chat_world_def syncMessageCache_def addDiscussionMessage_def
      single_ok_def Let_def initial_world_def demo_message_def)

text \<open>The claim as it is written fails when the cache already holds an id twice. A change
  notification and \<open>addDiscussionMessage\<close> have both put message 5 into the cache; the
  page of older messages holds message 5 again, and the merged cache still holds it twice.\<close>

theorem duplicated_id_counterexample:
  "data (messages duplicated_chat_world) = Some [demo_message 5, demo_message 5] \<and>
   demo_message 5 \<in> set (map (mapMessage demo_platform) (rev (the (rdata older_page)))) \<and>
   data (messages (snd (getDiscussionMessages demo_platform 5
       (Some (dm_timestamp (demo_message 5))) older_page duplicated_chat_world))) =
     Some [demo_message 1, demo_message 2, demo_message 3, demo_message 4,
           demo_message 5, demo_message 5] \<and>
   count_id (dm_id (demo_message 5))
     (the (data (messages (snd (getDiscussionMessages demo_platform 5
        (Some (dm_timestamp (demo_message 5))) older_page duplicated_chat_world))))) = 2"
proof -
  have eq: "getDiscussionMessages demo_platform 5 (Some (dm_timestamp (demo_message 5)))
        older_page duplicated_chat_world =
     (Inr (map (mapMessage demo_platform) (rev [demo_wire_message 5, demo_wire_message 4,
        demo_wire_message 3, demo_wire_message 2, demo_wire_message 1])),
      (await_gateway (Select ''messages'') (latency older_page) duplicated_chat_world)
        \<lparr>messages := (messages duplicated_chat_world)\<lparr>data := Some (uniqueNew
            [demo_message 5, demo_message 5]
            (map (mapMessage demo_platform) (rev [demo_wire_message 5, demo_wire_message 4,
               demo_wire_message 3, demo_wire_message 2, demo_wire_message 1])) @
            [demo_message 5, demo_message 5])\<rparr>\<rparr>)"
    by (intro getDiscussionMessages_older demo_cursor older_page_rows duplicated_chat_cached)
  have mem: "demo_message 5 \<in> set (map (mapMessage demo_platform) (rev (the (rdata older_page))))"
    by (simp add: older_page_rows demo_message_def)
  have merged: "data (messages (snd (getDiscussionMessages demo_platform 5
       (Some (dm_timestamp (demo_message 5))) older_page duplicated_chat_world))) =
     Some [demo_message 1, demo_message 2, demo_message 3, demo_message 4,
           demo_message 5, demo_message 5]"
    unfolding eq by (simp add: uniqueNew_def demo_message_def)
  have two: "count_id (dm_id (demo_message 5))
      [demo_message 1, demo_message 2, demo_message 3, demo_message 4,
       demo_message 5, demo_message 5] = 2"
    by (simp add: count_id_def)
  show ?thesis
    using duplicated_chat_cached mem merged two by simp
qed

text \<open>
  Claim C5, as the code has it. The cache holds the messages 5 to 10, oldest first, and
  the page requested before message 5 arrives newest first as the rows 5, 4, 3, 2, 1, the
  first a duplicate of the cached message 5. The merged cache is then the messages 1 to 10,
  with message 5 once. The value returned is the whole page, oldest first: the messages 1
  to 5, five records. The duplicate is left out of what goes into the cache, not out of
  what is returned.
\<close>

theorem older_page_returned_whole:
  "truthy before \<and> rerror r = None \<and> rdata r = Some [w5, w4, w3, w2, w1] \<and>
   data (messages w) = Some (mapMessage pf w5 # rest) \<and>
   (\<forall>x \<in> {w1, w2, w3, w4}. wm_id x \<notin> dm_id ` set (mapMessage pf w5 # rest)) \<longrightarrow>
     fst (getDiscussionMessages pf limit before r w) =
       Inr [mapMessage pf w1, mapMessage pf w2, mapMessage pf w3, mapMessage pf w4, mapMessage pf w5] \<and>
     data (messages (snd (getDiscussionMessages pf limit before r w))) =
       Some ([mapMessage pf w1, mapMessage pf w2, mapMessage pf w3, mapMessage pf w4]
             @ mapMessage pf w5 # rest)"
proof (intro impI)
  assume a: "truthy before \<and> rerror r = None \<and> rdata r = Some [w5, w4, w3, w2, w1] \<and>
   data (messages w) = Some (mapMessage pf w5 # rest) \<and>
   (\<forall>x \<in> {w1, w2, w3, w4}. wm_id x \<notin> dm_id ` set (mapMessage pf w5 # rest))"
  have eq: "getDiscussionMessages pf limit before r w =
     (Inr (map (mapMessage pf) (rev [w5, w4, w3, w2, w1])),
      (await_gateway (Select ''messages'') (latency r) w)
        \<lparr>messages := (messages w)\<lparr>data := Some (uniqueNew (mapMessage pf w5 # rest)
            (map (mapMessage pf) (rev [w5, w4, w3, w2, w1])) @ mapMessage pf w5 # rest)\<rparr>\<rparr>)"
    using a by (intro getDiscussionMessages_older) simp_all
  have u: "uniqueNew (mapMessage pf w5 # rest) (map (mapMessage pf) (rev [w5, w4, w3, w2, w1])) =
      [mapMessage pf w1, mapMessage pf w2, mapMessage pf w3, mapMessage pf w4]"
    using a by (simp add: uniqueNew_def)
  show "fst (getDiscussionMessages pf limit before r w) =
       Inr [mapMessage pf w1, mapMessage pf w2, mapMessage pf w3, mapMessage pf w4, mapMessage pf w5] \<and>
     data (messages (snd (getDiscussionMessages pf limit before r w))) =
       Some ([mapMessage pf w1, mapMessage pf w2, mapMessage pf w3, mapMessage pf w4]
             @ mapMessage pf w5 # rest)"
    unfolding eq u by simp
qed

theorem older_page_returned_whole_witness:
  "truthy (Some (dm_timestamp (demo_message 5))) \<and> rerror older_page = None \<and>
   wm_id (demo_wire_message 4) \<notin> dm_id ` set (the (data (messages chat_world))) \<and>
   fst (getDiscussionMessages demo_platform 5 (Some (dm_timestamp (demo_message 5)))
          older_page chat_world) =
     Inr [demo_message 1, demo_message 2, demo_message 3, demo_message 4, demo_message 5] \<and>
   data (messages (snd (getDiscussionMessages demo_platform 5
          (Some (dm_timestamp (demo_message 5))) older_page chat_world))) =
     Some [demo_message 1, demo_message 2, demo_message 3, demo_message 4, demo_message 5,
           demo_message 6, demo_message 7, demo_message 8, demo_message 9, demo_message 10]"
proof -
  have h: "truthy (Some (dm_timestamp (demo_message 5))) \<and> rerror older_page = None \<and>
      rdata older_page = Some [demo_wire_message 5, demo_wire_message 4, demo_wire_message 3,
               demo_wire_message 2, demo_wire_message 1] \<and>
      data (messages chat_world) = Some (mapMessage demo_platform (demo_wire_message 5) #
        [demo_message 6, demo_message 7, demo_message 8, demo_message 9, demo_message 10]) \<and>
      (\<forall>x \<in> {demo_wire_message 1, demo_wire_message 2, demo_wire_message 3, demo_wire_message 4}.
         wm_id x \<notin> dm_id ` set (mapMessage demo_platform (demo_wire_message 5) #
           [demo_message 6, demo_message 7, demo_message 8, demo_message 9, demo_message 10]))"
    by (simp add: demo_cursor older_page_rows chat_cached demo_message_def [symmetric])
  note t = older_page_returned_whole [where before = "Some (dm_timestamp (demo_message 5))"
      and r = older_page and w = chat_world and pf = demo_platform and limit = 5
      and ?w1.0 = "demo_wire_message 1" and ?w2.0 = "demo_wire_message 2"
      and ?w3.0 = "demo_wire_message 3" and ?w4.0 = "demo_wire_message 4"
      and ?w5.0 = "demo_wire_message 5"
      and rest = "[demo_message 6, demo_message 7, demo_message 8, demo_message 9, demo_message 10]",
      rule_format, OF h]
  have n: "wm_id (demo_wire_message 4) \<notin> dm_id ` set (the (data (messages chat_world)))"
    by (simp add: chat_cached)
  have r1: "fst (getDiscussionMessages demo_platform 5 (Some (dm_timestamp (demo_message 5)))
          older_page chat_world) =
     Inr [demo_message 1, demo_message 2, demo_message 3, demo_message 4, demo_message 5]"
    using t by (simp add: demo_message_def)
  have r2: "data (messages (snd (getDiscussionMessages demo_platform 5
          (Some (dm_timestamp (demo_message 5))) older_page chat_world))) =
     Some [demo_message 1, demo_message 2, demo_message 3, demo_message 4, demo_message 5,
           demo_message 6, demo_message 7, demo_message 8, demo_message 9, demo_message 10]"
    using t by (simp add: demo_message_def)
  show ?thesis
    using demo_cursor older_page_rows(1) n r1 r2 by blast
qed

text \<open>In that scenario the value returned is not the four messages 1 to 4.\<close>

theorem older_page_delta_counterexample:
  "fst (getDiscussionMessages demo_platform 5 (Some (dm_timestamp (demo_message 5)))
          older_page chat_world) =
     Inr [demo_message 1, demo_message 2, demo_message 3, demo_message 4, demo_message 5] \<and>
   fst (getDiscussionMessages demo_platform 5 (Some (dm_timestamp (demo_message 5)))
          older_page chat_world) \<noteq>
     Inr [demo_message 1, demo_message 2, demo_message 3, demo_message 4] \<and>
   data (messages (snd (getDiscussionMessages demo_platform 5
          (Some (dm_timestamp (demo_message 5))) older_page chat_world))) =
     Some [demo_message 1, demo_message 2, demo_message 3, demo_message 4, demo_message 5,
           demo_message 6, demo_message 7, demo_message 8, demo_message 9, demo_message 10]"
proof -
  have eq: "getDiscussionMessages demo_platform 5 (Some (dm_timestamp (demo_message 5))) older_page chat_world =
     (Inr (map (mapMessage demo_platform) (rev [demo_wire_message 5, demo_wire_message 4,
        demo_wire_message 3, demo_wire_message 2, demo_wire_message 1])),
      (await_gateway (Select ''messages'') (latency older_page) chat_world)
        \<lparr>messages := (messages chat_world)\<lparr>data := Some (uniqueNew
            [demo_message 5, demo_message 6, demo_message 7, demo_message 8, demo_message 9, demo_message 10]
            (map (mapMessage demo_platform) (rev [demo_wire_message 5, demo_wire_message 4,
        demo_wire_message 3, demo_wire_message 2, demo_wire_message 1])) @
            [demo_message 5, demo_message 6, demo_message 7, demo_message 8, demo_message 9, demo_message 10])\<rparr>\<rparr>)"
    by (intro getDiscussionMessages_older demo_cursor older_page_rows chat_cached)
  show ?thesis
    unfolding eq by (simp add: uniqueNew_def demo_message_def)
qed

subsection \<open>The fallback queue of comments\<close>

lemma show_int_first: "show_int 1714636800000 = ''1714636800000''"
  by (simp add: show_int_def show_nat.simps digit_char_def)

lemma show_int_second: "show_int 1714636800040 = ''1714636800040''"
  by (simp add: show_int_def show_nat.simps digit_char_def)

lemma day_of_era_demo: "day_of_era 19845 = 8828"
  by (simp add: day_of_era_def)

lemma year_of_era_demo: "year_of_era 8828 = 24"
  by (simp add: year_of_era_def)

lemma day_of_year_demo: "day_of_year 8828 = 62"
  by (simp add: day_of_year_def year_of_era_demo)

lemma month_index_demo: "month_index 62 = 2"
  by (simp add: month_index_def)

lemma civil_day_demo: "civil_day 19845 = 2"
  by (simp add: civil_day_def day_of_era_demo day_of_year_demo month_index_demo)

lemma civil_month_demo: "civil_month 19845 = 5"
  by (simp add: civil_month_def day_of_era_demo day_of_year_demo month_index_demo)

lemma civil_year_demo: "civil_year 19845 = 2024"
  by (simp add: civil_year_def day_of_era_demo year_of_era_demo civil_month_demo)

lemma show_small:
  "show_nat 0 = ''0''" "show_nat 40 = ''40''" "show_nat 2024 = ''2024''"
  by (simp_all add: show_nat.simps digit_char_def)

lemma replicate_small: "replicate (Suc 0) c = [c]" "replicate 2 c = [c, c]" "replicate 3 c = [c, c, c]"
  by (simp_all add: numeral_2_eq_2 numeral_3_eq_3)

lemma pad_small:
  "pad 2 0 = ''00''" "pad 2 2 = ''02''" "pad 2 5 = ''05''" "pad 2 8 = ''08''"
  "pad 3 0 = ''000''" "pad 3 40 = ''040''" "pad 4 2024 = ''2024''"
  by (simp_all add: pad_def show_small replicate_small)

lemma iso_first: "utc_iso_string 1714636800000 = ''2024-05-02T08:00:00.000Z''"
  by (simp add: utc_iso_string_def civil_year_demo civil_month_demo civil_day_demo year_string_def pad_small)

lemma iso_second: "utc_iso_string 1714636800040 = ''2024-05-02T08:00:00.040Z''"
  by (simp add: utc_iso_string_def civil_year_demo civil_month_demo civil_day_demo year_string_def pad_small)

lemma demo_iso [simp]: "toISOString demo_platform = utc_iso_string"
  by (simp add: demo_platform_def)

lemma addComment_failed:
  "rerror r = Some msg \<Longrightarrow>
   addComment pf postId content authorId r w =
     (Inr (), invalidateCache Posts
        ((await_gateway (Insert ''comments'') (latency r) w)
           \<lparr>pr_local_comments :=
              Some ((case pr_local_comments w of None \<Rightarrow> [] | Some queued \<Rightarrow> queued) @
                [\<lparr> lc_id = ''local-'' @ show_int (clock w + int (latency r)),
                   lc_post_id = postId, lc_author_id = authorId, lc_content = content,
                   lc_created_at = toISOString pf (clock w + int (latency r)),
                   lc_is_local = True \<rparr>])\<rparr>))"
  by (simp add: addComment_def Let_def stored_local_comments_def newLocalComment_def
      await_gateway_def)

lemma local_comments_invalidate [simp]:
  "pr_local_comments (invalidateCache k w) = pr_local_comments w"
  by (cases k) (simp_all add: invalidateCache_def)

lemma clock_invalidate [simp]: "clock (invalidateCache k w) = clock w"
  by (cases k) (simp_all add: invalidateCache_def)

lemma local_prefix_distinct: "take 6 sid \<noteq> ''local-'' \<Longrightarrow> ''local-'' @ s \<noteq> sid"
  by auto

lemma queued_comment:
  "pr_local_comments queued_world =
     Some [\<lparr> lc_id = ''local-1714636800000'', lc_post_id = ''p1'', lc_author_id = Some ''u1'',
             lc_content = ''merci'', lc_created_at = ''2024-05-02T08:00:00.000Z'',
             lc_is_local = True \<rparr>]"
proof -
  have f: "rerror (reply_failed :: unit reply) = Some ''Failed to fetch''"
    by (simp add: reply_failed_def)
  show ?thesis
    unfolding queued_world_def addComment_failed [OF f]
    by (simp add: initial_world_def reply_failed_def show_int_first iso_first)
qed

lemma queued_clock: "clock queued_world = 1714636800000"
proof -
  have f: "rerror (reply_failed :: unit reply) = Some ''Failed to fetch''"
    by (simp add: reply_failed_def)
  show ?thesis
    unfolding queued_world_def addComment_failed [OF f]
    by (simp add: initial_world_def reply_failed_def await_gateway_def)
qed

text \<open>
  Claim C6. If the Supabase insert of \<open>addComment\<close> fails, the operation returns normally,
  and the array stored under \<^verbatim>\<open>pr_local_comments\<close> is the array that was stored before,
  or the empty array when the key was absent, with one record added at its end. That record
  carries the post id, the content, the author, the creation time as an ISO string, the
  marker \<^verbatim>\<open>is_local: true\<close> and the id \<^verbatim>\<open>local-\<close> followed by the clock value. The id
  starts with \<^verbatim>\<open>local-\<close> and so differs from every id that does not.
\<close>

theorem addComment_queues_on_failure:
  "rerror r = Some msg \<longrightarrow>
     fst (addComment pf postId content authorId r w) = Inr () \<and>
     (pr_local_comments w = None \<longrightarrow>
        pr_local_comments (snd (addComment pf postId content authorId r w)) =
          Some [\<lparr> lc_id = ''local-'' @ show_int (clock w + int (latency r)),
                  lc_post_id = postId, lc_author_id = authorId, lc_content = content,
                  lc_created_at = toISOString pf (clock w + int (latency r)),
                  lc_is_local = True \<rparr>]) \<and>
     (\<forall>queued. pr_local_comments w = Some queued \<longrightarrow>
        pr_local_comments (snd (addComment pf postId content authorId r w)) =
          Some (queued @
            [\<lparr> lc_id = ''local-'' @ show_int (clock w + int (latency r)),
               lc_post_id = postId, lc_author_id = authorId, lc_content = content,
               lc_created_at = toISOString pf (clock w + int (latency r)),
               lc_is_local = True \<rparr>])) \<and>
     take 6 (''local-'' @ show_int (clock w + int (latency r))) = ''local-'' \<and>
     (\<forall>sid. take 6 sid \<noteq> ''local-'' \<longrightarrow>
        ''local-'' @ show_int (clock w + int (latency r)) \<noteq> sid)"
proof (intro impI)
  assume f: "rerror r = Some msg"
  let ?c = "\<lparr> lc_id = ''local-'' @ show_int (clock w + int (latency r)),
               lc_post_id = postId, lc_author_id = authorId, lc_content = content,
               lc_created_at = toISOString pf (clock w + int (latency r)),
               lc_is_local = True \<rparr>"
  have r1: "fst (addComment pf postId content authorId r w) = Inr ()"
    by (simp add: addComment_failed [OF f])
  have r2: "pr_local_comments (snd (addComment pf postId content authorId r w)) = Some [?c]"
    if "pr_local_comments w = None"
    using that by (simp add: addComment_failed [OF f])
  have r3: "pr_local_comments (snd (addComment pf postId content authorId r w)) = Some (queued @ [?c])"
    if "pr_local_comments w = Some queued" for queued
    using that by (simp add: addComment_failed [OF f])
  have p: "take 6 (''local-'' @ show_int (clock w + int (latency r))) = ''local-''"
    by simp
  have n: "\<forall>sid. take 6 sid \<noteq> ''local-'' \<longrightarrow> ''local-'' @ show_int (clock w + int (latency r)) \<noteq> sid"
    using local_prefix_distinct by blast
  show "fst (addComment pf postId content authorId r w) = Inr () \<and>
     (pr_local_comments w = None \<longrightarrow>
        pr_local_comments (snd (addComment pf postId content authorId r w)) = Some [?c]) \<and>
     (\<forall>queued. pr_local_comments w = Some queued \<longrightarrow>
        pr_local_comments (snd (addComment pf postId content authorId r w)) = Some (queued @ [?c])) \<and>
     take 6 (''local-'' @ show_int (clock w + int (latency r))) = ''local-'' \<and>
     (\<forall>sid. take 6 sid \<noteq> ''local-'' \<longrightarrow>
        ''local-'' @ show_int (clock w + int (latency r)) \<noteq> sid)"
    using r1 r2 r3 p n by blast
qed

theorem addComment_queues_on_failure_witness:
  "rerror (reply_failed :: unit reply) = Some ''Failed to fetch'' \<and>
   pr_local_comments queued_world =
     Some [\<lparr> lc_id = ''local-1714636800000'', lc_post_id = ''p1'', lc_author_id = Some ''u1'',
             lc_content = ''merci'', lc_created_at = ''2024-05-02T08:00:00.000Z'',
             lc_is_local = True \<rparr>] \<and>
   fst (addComment demo_platform ''p2'' ''encore'' None reply_failed queued_world) = Inr () \<and>
   pr_local_comments (snd (addComment demo_platform ''p2'' ''encore'' None reply_failed queued_world)) =
     Some [\<lparr> lc_id = ''local-1714636800000'', lc_post_id = ''p1'', lc_author_id = Some ''u1'',
             lc_content = ''merci'', lc_created_at = ''2024-05-02T08:00:00.000Z'',
             lc_is_local = True \<rparr>,
           \<lparr> lc_id = ''local-1714636800040'', lc_post_id = ''p2'', lc_author_id = None,
             lc_content = ''encore'', lc_created_at = ''2024-05-02T08:00:00.040Z'',
             lc_is_local = True \<rparr>] \<and>
   take 6 ''6f1c2a9e-0b7d-4c55-9a3e-2d8e5f4b1c07'' \<noteq> ''local-'' \<and>
   ''local-1714636800040'' \<noteq> ''6f1c2a9e-0b7d-4c55-9a3e-2d8e5f4b1c07''"
proof -
  have f: "rerror (reply_failed :: unit reply) = Some ''Failed to fetch''"
    by (simp add: reply_failed_def)
  note t = addComment_queues_on_failure [where r = "reply_failed :: unit reply"
      and msg = "''Failed to fetch''" and pf = demo_platform and postId = "''p2''"
      and content = "''encore''" and authorId = None and w = queued_world,
      rule_format, OF f]
  have now: "clock queued_world + int (latency (reply_failed :: unit reply)) = 1714636800040"
    by (simp add: queued_clock reply_failed_def)
  have r1: "fst (addComment demo_platform ''p2'' ''encore'' None reply_failed queued_world) = Inr ()"
    using t by blast
  have r2: "pr_local_comments (snd (addComment demo_platform ''p2'' ''encore'' None reply_failed queued_world)) =
     Some [\<lparr> lc_id = ''local-1714636800000'', lc_post_id = ''p1'', lc_author_id = Some ''u1'',
             lc_content = ''merci'', lc_created_at = ''2024-05-02T08:00:00.000Z'',
             lc_is_local = True \<rparr>,
           \<lparr> lc_id = ''local-1714636800040'', lc_post_id = ''p2'', lc_author_id = None,
             lc_content = ''encore'', lc_created_at = ''2024-05-02T08:00:00.040Z'',
             lc_is_local = True \<rparr>]"
    using t [THEN conjunct2, THEN conjunct2, THEN conjunct1, rule_format, OF queued_comment]
    by (simp add: now show_int_second iso_second)
  have u: "take 6 ''6f1c2a9e-0b7d-4c55-9a3e-2d8e5f4b1c07'' \<noteq> ''local-''"
    by simp
  have r3: "''local-1714636800040'' \<noteq> ''6f1c2a9e-0b7d-4c55-9a3e-2d8e5f4b1c07''"
    using t [THEN conjunct2, THEN conjunct2, THEN conjunct2, THEN conjunct2, rule_format, OF u]
    by (simp add: now show_int_second)
  show ?thesis using f queued_comment r1 r2 u r3 by blast
qed

subsection \<open>Reading the comments of a post\<close>

lemma demo_compare: "localeCompare demo_platform a b = (if a = b then 0 else if a < b then - 1 else 1)"
  by (simp add: demo_platform_def)

lemma demo_time [simp]: "toLocaleTimeString demo_platform s = take 5 (drop 11 s)"
  by (simp add: demo_platform_def)

lemma getCommentsForPost_ok:
  "rerror r = None \<Longrightarrow>
   fst (getCommentsForPost pf postId r w) =
     Inr (js_sort (by_timestamp pf)
       (map (mapDbComment pf) (case rdata r of None \<Rightarrow> [] | Some rows \<Rightarrow> rows)
        @ map (mapLocalComment pf)
            (filter (\<lambda>c. lc_post_id c = postId)
               (case pr_local_comments w of None \<Rightarrow> [] | Some queued \<Rightarrow> queued))))"
  by (simp add: getCommentsForPost_def Let_def localCommentsFor_def stored_local_comments_def)

text \<open>
  Claim C7, at an input where the code departs from it. The claim asks for the comments of
  the reply and the queued comments in the order of their time stamps. The code sorts on
  the \<open>timestamp\<close> field of the mapped comments, which is the formatted time of day
  without the date. Here a comment was queued on 2 May 2024 at 08:00 and the reply holds a
  comment written on 1 May 2024 at 09:00: \<open>getCommentsForPost\<close> compares \<^verbatim>\<open>08:00\<close> with
  \<^verbatim>\<open>09:00\<close> and returns the queued comment first, before the comment written the day
  before it.
\<close>

theorem comments_sorted_by_time_of_day:
  "pr_local_comments queued_world =
     Some [\<lparr> lc_id = ''local-1714636800000'', lc_post_id = ''p1'', lc_author_id = Some ''u1'',
             lc_content = ''merci'', lc_created_at = ''2024-05-02T08:00:00.000Z'',
             lc_is_local = True \<rparr>] \<and>
   rdata day_before_reply = Some [demo_wire_comment ''c1'' ''2024-05-01T09:00:00.000Z''] \<and>
   ''2024-05-01T09:00:00.000Z'' < ''2024-05-02T08:00:00.000Z'' \<and>
   fst (getCommentsForPost demo_platform ''p1'' day_before_reply queued_world) =
     Inr [\<lparr> co_id = ''local-1714636800000'', co_authorName = ''Moi (Local)'',
             co_content = ''merci'', co_timestamp = ''08:00'' \<rparr>,
          \<lparr> co_id = ''c1'', co_authorName = ''Awa'', co_content = ''bravo'',
             co_timestamp = ''09:00'' \<rparr>]"
proof -
  have e: "rerror day_before_reply = None"
    by (simp add: day_before_reply_def reply_ok_def)
  have d: "rdata day_before_reply = Some [demo_wire_comment ''c1'' ''2024-05-01T09:00:00.000Z'']"
    by (simp add: day_before_reply_def reply_ok_def)
  have o: "''2024-05-01T09:00:00.000Z'' < ''2024-05-02T08:00:00.000Z''"
    by simp
  have v: "fst (getCommentsForPost demo_platform ''p1'' day_before_reply queued_world) =
     Inr [\<lparr> co_id = ''local-1714636800000'', co_authorName = ''Moi (Local)'',
             co_content = ''merci'', co_timestamp = ''08:00'' \<rparr>,
          \<lparr> co_id = ''c1'', co_authorName = ''Awa'', co_content = ''bravo'',
             co_timestamp = ''09:00'' \<rparr>]"
    unfolding getCommentsForPost_ok [OF e] d queued_comment
    by (simp add: js_sort_def by_timestamp_def demo_compare mapDbComment_def mapLocalComment_def
        demo_wire_comment_def or_else_def profiles_name_def)
  show ?thesis using queued_comment d o v by blast
qed

subsection \<open>The invariant of the cache\<close>

lemma cache_inv_await [simp]: "cache_inv (await_gateway rq ms w) = cache_inv w"
  by (simp add: cache_inv_def)

lemma cache_inv_invalidate [simp]: "cache_inv w \<Longrightarrow> cache_inv (invalidateCache k w)"
  by (cases k) (simp_all add: cache_inv_def invalidateCache_def)

lemma cache_inv_initial: "cache_inv (initial_world t)"
  by (simp add: cache_inv_def initial_world_def empty_entry_def)

lemma cache_inv_members_upd [simp]:
  "cache_inv w \<Longrightarrow> data e \<noteq> None \<Longrightarrow> cache_inv (w\<lparr>members := e\<rparr>)"
  by (auto simp add: cache_inv_def)

lemma cache_inv_posts_upd [simp]:
  "cache_inv w \<Longrightarrow> data e \<noteq> None \<Longrightarrow> cache_inv (w\<lparr>posts := e\<rparr>)"
  by (auto simp add: cache_inv_def)

lemma cache_inv_trainings_upd [simp]:
  "cache_inv w \<Longrightarrow> data e \<noteq> None \<Longrightarrow> cache_inv (w\<lparr>trainings := e\<rparr>)"
  by (auto simp add: cache_inv_def)

lemma cache_inv_messages_upd [simp]:
  "cache_inv w \<Longrightarrow> data e \<noteq> None \<Longrightarrow> cache_inv (w\<lparr>messages := e\<rparr>)"
  by (auto simp add: cache_inv_def)

lemma cache_inv_local_comments [simp]:
  "cache_inv (w\<lparr>pr_local_comments := cs\<rparr>) = cache_inv w"
  by (simp add: cache_inv_def)

lemma inv_getCurrentUser: "cache_inv w \<Longrightarrow> cache_inv (snd (getCurrentUser pf rs rp w))"
  by (simp add: getCurrentUser_def Let_def split: sum.splits option.splits)

lemma inv_login: "cache_inv w \<Longrightarrow> cache_inv (snd (login pf r rs rp w))"
  by (simp add: login_def Let_def inv_getCurrentUser split: sum.splits option.splits)

lemma inv_logout: "cache_inv w \<Longrightarrow> cache_inv (snd (logout r w))"
  by (simp add: logout_def Let_def)

lemma inv_register: "cache_inv w \<Longrightarrow> cache_inv (snd (register pf email password r ru rs rp w))"
proof -
  assume i: "cache_inv w"
  have g: "cache_inv (snd (getCurrentUser pf rs rp
      (invalidateCache Members (await_gateway (Update ''profiles'') (latency ru)
         (await_gateway (Auth ''signUp'') (slatency r) w)))))"
    using i by (intro inv_getCurrentUser) simp
  show ?thesis
    using i g
    by (auto simp add: register_def Let_def split: sum.splits option.splits prod.splits)
qed

lemma inv_updateUserLocation:
  "cache_inv w \<Longrightarrow> cache_inv (snd (updateUserLocation userId la lo ci ad r w))"
  by (simp add: updateUserLocation_def Let_def split: option.splits)

lemma inv_updateUser: "cache_inv w \<Longrightarrow> cache_inv (snd (updateUser pf userId r rs rp w))"
  by (simp add: updateUser_def Let_def inv_getCurrentUser split: option.splits)

lemma inv_getAllMembers: "cache_inv w \<Longrightarrow> cache_inv (snd (getAllMembers pf K r w))"
  by (simp add: getAllMembers_def Let_def split: sum.splits option.splits)

lemma inv_getPosts: "cache_inv w \<Longrightarrow> cache_inv (snd (getPosts pf K force r w))"
  by (simp add: getPosts_def Let_def split: sum.splits option.splits)

lemma inv_getTrainings: "cache_inv w \<Longrightarrow> cache_inv (snd (getTrainings pf K r w))"
  by (simp add: getTrainings_def Let_def split: sum.splits option.splits)

lemma inv_addPost: "cache_inv w \<Longrightarrow> cache_inv (snd (addPost p r w))"
  by (simp add: addPost_def Let_def split: option.splits)

lemma inv_updatePost: "cache_inv w \<Longrightarrow> cache_inv (snd (updatePost p r w))"
  by (simp add: updatePost_def updatePost_send_eq updatePost_patch_def split: option.splits)

lemma inv_addComment: "cache_inv w \<Longrightarrow> cache_inv (snd (addComment pf postId content authorId r w))"
  by (simp add: addComment_def Let_def split: option.splits)

lemma inv_getCommentsForPost: "cache_inv w \<Longrightarrow> cache_inv (snd (getCommentsForPost pf postId r w))"
  by (simp add: getCommentsForPost_def Let_def split: option.splits)

lemma inv_addTraining: "cache_inv w \<Longrightarrow> cache_inv (snd (addTraining t r w))"
  by (simp add: addTraining_def Let_def split: option.splits)

lemma inv_markTrainingCompleted:
  "cache_inv w \<Longrightarrow> cache_inv (snd (markTrainingCompleted userId trainingId r1 r2 w))"
  by (simp add: markTrainingCompleted_def Let_def split: sum.splits option.splits)

lemma inv_syncMessageCache: "cache_inv w \<Longrightarrow> cache_inv (syncMessageCache ms w)"
  by (simp add: syncMessageCache_def)

lemma inv_getDiscussionMessages:
  "cache_inv w \<Longrightarrow> cache_inv (snd (getDiscussionMessages pf limit before r w))"
  by (simp add: getDiscussionMessages_def Let_def split: option.splits)

lemma inv_addDiscussionMessage: "cache_inv w \<Longrightarrow> cache_inv (snd (addDiscussionMessage pf r w))"
  by (simp add: addDiscussionMessage_def Let_def split: sum.splits option.splits)

lemma inv_deleteDiscussionMessage:
  "cache_inv w \<Longrightarrow> cache_inv (snd (deleteDiscussionMessage messageId r w))"
  by (simp add: deleteDiscussionMessage_def Let_def split: option.splits)

text \<open>
  Claim C9. In the state of a freshly loaded module every cache entry without data has
  time stamp \<open>0\<close>, and every operation of the service, whether it returns or throws, leaves
  a world in which this holds again: an entry is either reset by \<open>invalidateCache\<close>,
  replaced by an entry with data, or has its data replaced by other data.
\<close>

theorem cache_invariant_preserved:
  "cache_inv (initial_world t) \<and> (cache_inv w \<longrightarrow> cache_inv (perform pf K c w))"
proof (intro conjI impI)
  show "cache_inv (initial_world t)" by (rule cache_inv_initial)
next
  assume i: "cache_inv w"
  show "cache_inv (perform pf K c w)"
  proof (cases c)
    case (Register email password r ru rs rp)
    then show ?thesis using i by (simp add: inv_register)
  qed (use i in \<open>simp_all add: inv_getCurrentUser inv_login inv_logout inv_updateUserLocation
        inv_updateUser inv_getAllMembers inv_getPosts inv_getTrainings inv_addPost inv_updatePost
        inv_addComment inv_getCommentsForPost inv_addTraining inv_markTrainingCompleted
        inv_syncMessageCache inv_getDiscussionMessages inv_addDiscussionMessage
        inv_deleteDiscussionMessage\<close>)
qed

theorem cache_invariant_preserved_witness:
  "cache_inv (demo_world 2000) \<and>
   cache_inv (perform demo_platform demo_constants (AddPost (demo_post ''p3'' 0) (reply_ok ()))
     (demo_world 2000)) \<and>
   posts (perform demo_platform demo_constants (AddPost (demo_post ''p3'' 0) (reply_ok ()))
     (demo_world 2000)) = \<lparr> data = None, timestamp = 0 \<rparr>"
proof -
  have i: "cache_inv (demo_world 2000)"
    by (simp add: cache_inv_def demo_world_def)
  have p: "cache_inv (perform demo_platform demo_constants (AddPost (demo_post ''p3'' 0) (reply_ok ()))
     (demo_world 2000))"
    using cache_invariant_preserved [where w = "demo_world 2000" and pf = demo_platform
        and K = demo_constants and c = "AddPost (demo_post ''p3'' 0) (reply_ok ())"] i
    by blast
  have v: "posts (perform demo_platform demo_constants (AddPost (demo_post ''p3'' 0) (reply_ok ()))
     (demo_world 2000)) = \<lparr> data = None, timestamp = 0 \<rparr>"
    by (simp add: addPost_def reply_ok_def Let_def invalidateCache_def)
  show ?thesis using i p v by blast
qed

end
